theory Spec2Isabelle
  imports Complex_Main
begin

section \<open>ISTA and FISTA of \<^verbatim>\<open>tigre/algorithms/ista_algorithms.py\<close>\<close>

text \<open>
  The embedding follows the Python file function by function. Three conventions hold
  throughout.

  \<^item> Numbers are the reals: Python's \<^verbatim>\<open>float\<close> and numpy's arrays are idealised as exact
    real arithmetic, and a volume or a stack of projection rows is an element of a real
    vector space (\<open>+\<close>, \<open>-\<close> and scaling \<open>*\<^sub>R\<close> are numpy's element-wise operations).
    Rounding, overflow and \<^verbatim>\<open>inf\<close>/\<^verbatim>\<open>nan\<close> are outside the model.
  \<^item> An exception is a value of type \<open>error\<close>. A constructor that raises yields no
    object (\<open>Inl\<close>); a method that raises yields the error together with the object as
    the raise leaves it.
  \<^item> The projector, the denoiser and the metric are collaborators of the file: they
    are parameters (record \<open>collaborators\<close>), taken to be pure functions. Every call
    that leaves the file is appended to the field \<open>calls\<close> of the object, oldest
    first; that field is the only one with no counterpart in the Python object.

  Progress printing and the \<^verbatim>\<open>time.clock()\<close> calls under \<^verbatim>\<open>self.verbose\<close> change no
  attribute and are left out.
\<close>

subsection \<open>Python values and the arithmetic applied to keyword arguments\<close>

datatype pyval =
    PyNone
  | PyBool bool
  | PyInt int
  | PyFloat real
  | PyStr string
  | PyStrs "string list"

datatype error = TypeError | ZeroDivisionError | IndexError | InvalidConfiguration

type_synonym kwargs = "string \<Rightarrow> pyval option"

text \<open>The numeric value of a Python object, where it has one (\<^verbatim>\<open>bool\<close> is an \<^verbatim>\<open>int\<close>).\<close>

fun as_number :: "pyval \<Rightarrow> real option" where
  "as_number (PyBool b) = Some (if b then 1 else 0)"
| "as_number (PyInt n) = Some (real_of_int n)"
| "as_number (PyFloat x) = Some x"
| "as_number PyNone = None"
| "as_number (PyStr s) = None"
| "as_number (PyStrs ss) = None"

text \<open>\<^verbatim>\<open>x / v\<close> for a float \<open>x\<close>: a \<^verbatim>\<open>TypeError\<close> on a non-number, a
  \<^verbatim>\<open>ZeroDivisionError\<close> on zero.\<close>

definition float_truediv :: "real \<Rightarrow> pyval \<Rightarrow> error + real" where
  "float_truediv x v =
     (case as_number v of
        None \<Rightarrow> Inl TypeError
      | Some y \<Rightarrow> if y = 0 then Inl ZeroDivisionError else Inr (x / y))"

text \<open>\<^verbatim>\<open>x * v\<close> for a float \<open>x\<close>: a \<^verbatim>\<open>TypeError\<close> on a non-number (also on a string or
  a list, which only an \<^verbatim>\<open>int\<close> can repeat).\<close>

definition float_mul :: "real \<Rightarrow> pyval \<Rightarrow> error + real" where
  "float_mul x v =
     (case as_number v of
        None \<Rightarrow> Inl TypeError
      | Some y \<Rightarrow> Inr (x * y))"

subsection \<open>The object\<close>

type_synonym angle = "real \<times> real \<times> real"

text \<open>The calls that leave the file, with the arguments they are given (the geometry
  apart).\<close>

datatype ('v, 'p) call =
    Call_Ax 'v "angle list" string
  | Call_Atb 'p "angle list" string
  | Call_im3ddenoise 'v pyval real
  | Call_error_measurement "'v option" nat

text \<open>
  The attributes of the base class \<^verbatim>\<open>IterativeReconAlg\<close> that this file reads or that
  the base-class methods it calls write. \<open>proj\<close> is only ever indexed by a whole index
  block (\<^verbatim>\<open>self.proj[self.angle_index[iteration]]\<close>), so it is kept as the function from
  an index block to the stack of rows selected. \<open>angles\<close> is the Angle Set,
  \<open>angle_index\<close> the Angle Index Partition and \<open>lq\<close> the Quality Trace of the
  specification.
\<close>

record ('v, 'p, 'g) IterativeReconAlg =
  res :: 'v
  proj :: "nat list \<Rightarrow> 'p"
  geo :: 'g
  angles :: "angle list"
  niter :: int
  angle_index :: "nat list list"
  Quameasopts :: "string list option"
  verbose :: bool
  lq :: "real list list"
  calls :: "('v, 'p) call list"

text \<open>
  The attributes \<^verbatim>\<open>FISTA.__init__\<close> adds: \<^verbatim>\<open>lmbda\<close>, \<^verbatim>\<open>__L__\<close>, \<^verbatim>\<open>__numiter_tv__\<close>,
  \<^verbatim>\<open>__lambda__\<close>, \<^verbatim>\<open>__t__\<close> and \<^verbatim>\<open>__bm__\<close> (a name cannot start with an underscore
  here, hence \<open>priv_\<close>). \<^verbatim>\<open>__L__\<close>, \<^verbatim>\<open>__numiter_tv__\<close> and \<^verbatim>\<open>__lambda__\<close> hold whatever
  object the caller passed.
\<close>

record ('v, 'p, 'g) FISTA = "('v, 'p, 'g) IterativeReconAlg" +
  lmbda :: real
  priv_L :: pyval
  priv_numiter_tv :: pyval
  priv_lambda :: pyval
  priv_t :: real
  priv_bm :: real

record ('v, 'p, 'g) collaborators =
  Ax :: "'v \<Rightarrow> 'g \<Rightarrow> angle list \<Rightarrow> string \<Rightarrow> 'p"
  Atb :: "'p \<Rightarrow> 'g \<Rightarrow> angle list \<Rightarrow> string \<Rightarrow> 'v"
  im3ddenoise :: "'v \<Rightarrow> pyval \<Rightarrow> real \<Rightarrow> 'v"
  quality_metric :: "string \<Rightarrow> 'v option \<Rightarrow> 'v \<Rightarrow> real"

subsection \<open>\<^verbatim>\<open>FISTA.__init__\<close>\<close>

text \<open>
  \<^verbatim>\<open>IterativeReconAlg.__init__\<close> is not part of the file: it is the parameter \<open>base_init\<close>,
  which receives the keyword arguments as \<^verbatim>\<open>FISTA.__init__\<close> has updated them and either
  raises or returns the object with the base-class attributes set.
\<close>

definition FISTA_init ::
  "((nat list \<Rightarrow> 'p) \<Rightarrow> 'g \<Rightarrow> angle list \<Rightarrow> int \<Rightarrow> kwargs \<Rightarrow> error + ('v, 'p, 'g) IterativeReconAlg)
     \<Rightarrow> (nat list \<Rightarrow> 'p) \<Rightarrow> 'g \<Rightarrow> angle list \<Rightarrow> int \<Rightarrow> kwargs \<Rightarrow> error + ('v, 'p, 'g) FISTA" where
  "FISTA_init base_init proj0 geo0 angles0 niter0 kwargs0 =
     (let kwargs1 = kwargs0(''W'' \<mapsto> PyNone, ''V'' \<mapsto> PyNone);
          kwargs2 = kwargs1(''blocksize'' \<mapsto> PyInt (int (length angles0)))
      in case base_init proj0 geo0 angles0 niter0 kwargs2 of
           Inl e \<Rightarrow> Inl e
         | Inr self \<Rightarrow>
             (let L = (case kwargs2 ''hyper'' of None \<Rightarrow> PyFloat 20000 | Some v \<Rightarrow> v);
                  numiter_tv = (case kwargs2 ''tviter'' of None \<Rightarrow> PyInt 20 | Some v \<Rightarrow> v);
                  lam = (case kwargs2 ''lambda'' of None \<Rightarrow> PyFloat (1 / 10) | Some v \<Rightarrow> v)
              in case float_truediv 1 L of
                   Inl e \<Rightarrow> Inl e
                 | Inr bm \<Rightarrow>
                     Inr (IterativeReconAlg.extend self
                            \<lparr>lmbda = 1 / 10, priv_L = L, priv_numiter_tv = numiter_tv,
                             priv_lambda = lam, priv_t = 1, priv_bm = bm\<rparr>)))"

subsection \<open>\<^verbatim>\<open>FISTA.update_image\<close>\<close>

text \<open>
  \<^verbatim>\<open>self.res += self.__bm__ * 2 * tigre.Atb((self.proj[self.angle_index[iteration]] -
  tigre.Ax(self.res, geo, angle, 'interpolated')), geo, angle, 'matched')\<close>.
  The block index \<open>iteration\<close> is the loop counter of the caller, a natural number;
  \<^verbatim>\<open>self.angle_index[iteration]\<close> raises \<^verbatim>\<open>IndexError\<close> past the end, before any
  projector is called.
\<close>

definition update_image ::
  "('v::real_vector, 'p::real_vector, 'g) collaborators \<Rightarrow> 'g \<Rightarrow> angle list \<Rightarrow> nat
     \<Rightarrow> ('v, 'p, 'g) FISTA \<Rightarrow> error option \<times> ('v, 'p, 'g) FISTA" where
  "update_image ext geo1 angle iteration self =
     (if iteration < length (angle_index self) then
        (let fwd = Ax ext (res self) geo1 angle ''interpolated'';
             proj_err = proj self (angle_index self ! iteration) - fwd;
             backprj = Atb ext proj_err geo1 angle ''matched''
         in (None,
             self\<lparr>res := res self + (priv_bm self * 2) *\<^sub>R backprj,
                  calls := calls self @
                    [Call_Ax (res self) angle ''interpolated'',
                     Call_Atb proj_err angle ''matched'']\<rparr>))
      else (Some IndexError, self))"

subsection \<open>The base-class methods the loops call\<close>

text \<open>
  Modelled from the spec: the angles of a block, the entries of the Angle Set at the
  block's indices (Data Model: a block is a set of indices into the Angle Set). An index
  outside the Angle Set raises \<^verbatim>\<open>IndexError\<close> (\<open>None\<close>).
\<close>

definition block_angles :: "angle list \<Rightarrow> nat list \<Rightarrow> angle list option" where
  "block_angles as idx =
     (if list_all (\<lambda>i. i < length as) idx then Some (map (\<lambda>i. as ! i) idx) else None)"

text \<open>
  Modelled from the spec: the method that \<^verbatim>\<open>getattr(self, self.dataminimizing)()\<close>
  calls belongs to \<^verbatim>\<open>IterativeReconAlg\<close>, which is not part of the file. The specification
  (4.2, 4.3) has it run one full pass of the shared gradient-step update across all
  blocks of the Angle Index Partition, in order, each block with that block's angles.
  \<open>data_minimizing_blocks\<close> is the pass over a list of block numbers, left at the first
  exception.
\<close>

fun data_minimizing_blocks ::
  "('v::real_vector, 'p::real_vector, 'g) collaborators \<Rightarrow> nat list
     \<Rightarrow> ('v, 'p, 'g) FISTA \<Rightarrow> error option \<times> ('v, 'p, 'g) FISTA" where
  "data_minimizing_blocks ext [] self = (None, self)"
| "data_minimizing_blocks ext (j # js) self =
     (if j < length (angle_index self) then
        (case block_angles (angles self) (angle_index self ! j) of
           None \<Rightarrow> (Some IndexError, self)
         | Some angle \<Rightarrow>
             (case update_image ext (geo self) angle j self of
                (Some e, self') \<Rightarrow> (Some e, self')
              | (None, self') \<Rightarrow> data_minimizing_blocks ext js self'))
      else (Some IndexError, self))"

text \<open>Modelled from the spec: the full pass, over every block of the partition.\<close>

definition data_minimizing ::
  "('v::real_vector, 'p::real_vector, 'g) collaborators
     \<Rightarrow> ('v, 'p, 'g) FISTA \<Rightarrow> error option \<times> ('v, 'p, 'g) FISTA" where
  "data_minimizing ext self =
     data_minimizing_blocks ext [0..<length (angle_index self)] self"

text \<open>
  Modelled from the spec: \<^verbatim>\<open>IterativeReconAlg.error_measurement\<close> is not part of the
  file. The specification (4.5) has it take the previous estimate or none and the
  current estimate, compute each requested metric and append the record to the Quality
  Trace, and do nothing when no metric is requested.
\<close>

definition error_measurement ::
  "('v, 'p, 'g) collaborators \<Rightarrow> 'v option \<Rightarrow> nat
     \<Rightarrow> ('v, 'p, 'g) FISTA \<Rightarrow> ('v, 'p, 'g) FISTA" where
  "error_measurement ext res_prev i self =
     (let self1 = self\<lparr>calls := calls self @ [Call_error_measurement res_prev i]\<rparr>
      in case Quameasopts self1 of
           None \<Rightarrow> self1
         | Some names \<Rightarrow>
             self1\<lparr>lq := lq self1 @
               [map (\<lambda>n. quality_metric ext n res_prev (res self1)) names]\<rparr>)"

subsection \<open>\<^verbatim>\<open>FISTA.run_main_iter\<close>\<close>

text \<open>
  One pass of the loop body, on the locals \<open>t\<close> and \<open>x_rec\<close> and the object. The
  locals \<open>Quameasopts\<close> and \<open>lambdaForTv\<close> are set before the loop and only read.
  \<^verbatim>\<open>copy.deepcopy\<close> is the identity on values. \<^verbatim>\<open>1. / lambdaForTv\<close> raises on zero;
  the division by the new \<open>t\<close> cannot, the new \<open>t\<close> being at least 1 (lemma
  \<open>momentum_step_ge1\<close>).
\<close>

definition FISTA_iteration ::
  "('v::real_vector, 'p::real_vector, 'g) collaborators \<Rightarrow> string list option \<Rightarrow> real \<Rightarrow> nat
     \<Rightarrow> real \<times> 'v \<times> ('v, 'p, 'g) FISTA
     \<Rightarrow> error option \<times> real \<times> 'v \<times> ('v, 'p, 'g) FISTA" where
  "FISTA_iteration ext Quameasopts1 lambdaForTv i loc =
     (case loc of (t, x_rec, self) \<Rightarrow>
        (let res_prev = (case Quameasopts1 of None \<Rightarrow> None | Some q \<Rightarrow> Some (res self))
         in case data_minimizing ext self of
              (Some e, self1) \<Rightarrow> (Some e, t, x_rec, self1)
            | (None, self1) \<Rightarrow>
                (let x_rec_old = x_rec
                 in if lambdaForTv = 0 then (Some ZeroDivisionError, t, x_rec, self1)
                    else
                      (let x_rec_new =
                             im3ddenoise ext (res self1) (priv_numiter_tv self1) (1 / lambdaForTv);
                           self2 = self1\<lparr>calls := calls self1 @
                             [Call_im3ddenoise (res self1) (priv_numiter_tv self1)
                                (1 / lambdaForTv)]\<rparr>;
                           t_old = t;
                           t_new = (1 + sqrt (1 + 4 * t ^ 2)) / 2;
                           self3 = self2\<lparr>res :=
                             x_rec_new + ((t_old - 1) / t_new) *\<^sub>R (x_rec_new - x_rec_old)\<rparr>
                       in (None, t_new, x_rec_new, error_measurement ext res_prev i self3)))))"

text \<open>\<^verbatim>\<open>for i in range(self.niter)\<close>: the body for each index in turn, left at the
  first exception.\<close>

fun FISTA_loop ::
  "('v::real_vector, 'p::real_vector, 'g) collaborators \<Rightarrow> string list option \<Rightarrow> real \<Rightarrow> nat list
     \<Rightarrow> real \<times> 'v \<times> ('v, 'p, 'g) FISTA
     \<Rightarrow> error option \<times> real \<times> 'v \<times> ('v, 'p, 'g) FISTA" where
  "FISTA_loop ext Q lam [] loc = (None, loc)"
| "FISTA_loop ext Q lam (i # is) loc =
     (case FISTA_iteration ext Q lam i loc of
        (Some e, loc') \<Rightarrow> (Some e, loc')
      | (None, loc') \<Rightarrow> FISTA_loop ext Q lam is loc')"

definition FISTA_run_main_iter ::
  "('v::real_vector, 'p::real_vector, 'g) collaborators
     \<Rightarrow> ('v, 'p, 'g) FISTA \<Rightarrow> error option \<times> ('v, 'p, 'g) FISTA" where
  "FISTA_run_main_iter ext self =
     (let t = priv_t self;
          Quameasopts1 = Quameasopts self;
          x_rec = res self
      in case float_mul (2 * priv_bm self) (priv_lambda self) of
           Inl e \<Rightarrow> (Some e, self)
         | Inr lambdaForTv \<Rightarrow>
             (case FISTA_loop ext Quameasopts1 lambdaForTv [0..<nat (niter self)]
                     (t, x_rec, self) of
                (e, t', x_rec', self') \<Rightarrow> (e, self')))"

subsection \<open>\<^verbatim>\<open>ISTA.run_main_iter\<close>\<close>

definition ISTA_iteration ::
  "('v::real_vector, 'p::real_vector, 'g) collaborators \<Rightarrow> string list option \<Rightarrow> real \<Rightarrow> nat
     \<Rightarrow> ('v, 'p, 'g) FISTA \<Rightarrow> error option \<times> ('v, 'p, 'g) FISTA" where
  "ISTA_iteration ext Quameasopts1 lambdaForTv i self =
     (let res_prev = (case Quameasopts1 of None \<Rightarrow> None | Some q \<Rightarrow> Some (res self))
      in case data_minimizing ext self of
           (Some e, self1) \<Rightarrow> (Some e, self1)
         | (None, self1) \<Rightarrow>
             (if lambdaForTv = 0 then (Some ZeroDivisionError, self1)
              else
                (let self2 = self1\<lparr>res := im3ddenoise ext (res self1) (PyInt 20) (1 / lambdaForTv),
                       calls := calls self1 @
                         [Call_im3ddenoise (res self1) (PyInt 20) (1 / lambdaForTv)]\<rparr>
                 in (None, error_measurement ext res_prev i self2))))"

fun ISTA_loop ::
  "('v::real_vector, 'p::real_vector, 'g) collaborators \<Rightarrow> string list option \<Rightarrow> real \<Rightarrow> nat list
     \<Rightarrow> ('v, 'p, 'g) FISTA \<Rightarrow> error option \<times> ('v, 'p, 'g) FISTA" where
  "ISTA_loop ext Q lam [] self = (None, self)"
| "ISTA_loop ext Q lam (i # is) self =
     (case ISTA_iteration ext Q lam i self of
        (Some e, self') \<Rightarrow> (Some e, self')
      | (None, self') \<Rightarrow> ISTA_loop ext Q lam is self')"

definition ISTA_run_main_iter ::
  "('v::real_vector, 'p::real_vector, 'g) collaborators
     \<Rightarrow> ('v, 'p, 'g) FISTA \<Rightarrow> error option \<times> ('v, 'p, 'g) FISTA" where
  "ISTA_run_main_iter ext self =
     (let Quameasopts1 = Quameasopts self;
          lambdaForTv = 2 * priv_bm self * lmbda self
      in ISTA_loop ext Quameasopts1 lambdaForTv [0..<nat (niter self)] self)"

subsection \<open>The two classes and attribute lookup\<close>

text \<open>
  \<^verbatim>\<open>class ISTA(FISTA)\<close>: the names each class body defines, and the lookup of a name
  through the classes of its method resolution order (\<open>mro\<close>, the base class
  \<^verbatim>\<open>IterativeReconAlg\<close> left out) in turn. \<^verbatim>\<open>ISTA\<close> defines \<^verbatim>\<open>__int__\<close> (so spelled) and
  \<^verbatim>\<open>run_main_iter\<close>. A name neither class defines is looked for in
  \<^verbatim>\<open>IterativeReconAlg\<close>, outside the file (\<open>None\<close>).
\<close>

datatype cls = Cls_FISTA | Cls_ISTA

datatype meth =
    M_FISTA_init | M_FISTA_update_image | M_FISTA_run_main_iter
  | M_ISTA_int | M_ISTA_run_main_iter

fun class_dict :: "cls \<Rightarrow> string \<Rightarrow> meth option" where
  "class_dict Cls_FISTA =
     [''__init__'' \<mapsto> M_FISTA_init,
      ''update_image'' \<mapsto> M_FISTA_update_image,
      ''run_main_iter'' \<mapsto> M_FISTA_run_main_iter]"
| "class_dict Cls_ISTA =
     [''__int__'' \<mapsto> M_ISTA_int,
      ''run_main_iter'' \<mapsto> M_ISTA_run_main_iter]"

fun mro :: "cls \<Rightarrow> cls list" where
  "mro Cls_FISTA = [Cls_FISTA]"
| "mro Cls_ISTA = [Cls_ISTA, Cls_FISTA]"

fun lookup_in :: "cls list \<Rightarrow> string \<Rightarrow> meth option" where
  "lookup_in [] name = None"
| "lookup_in (c # cs) name =
     (case class_dict c name of
        Some m \<Rightarrow> Some m
      | None \<Rightarrow> lookup_in cs name)"

definition lookup_method :: "cls \<Rightarrow> string \<Rightarrow> meth option" where
  "lookup_method c name = lookup_in (mro c) name"

text \<open>\<^verbatim>\<open>ISTA.__int__\<close>: its body is the call \<^verbatim>\<open>FISTA.__init__(self, proj, geo, angles,
  niter, **kwargs)\<close>.\<close>

definition ISTA_int ::
  "((nat list \<Rightarrow> 'p) \<Rightarrow> 'g \<Rightarrow> angle list \<Rightarrow> int \<Rightarrow> kwargs \<Rightarrow> error + ('v, 'p, 'g) IterativeReconAlg)
     \<Rightarrow> (nat list \<Rightarrow> 'p) \<Rightarrow> 'g \<Rightarrow> angle list \<Rightarrow> int \<Rightarrow> kwargs \<Rightarrow> error + ('v, 'p, 'g) FISTA" where
  "ISTA_int base_init proj0 geo0 angles0 niter0 kwargs0 =
     FISTA_init base_init proj0 geo0 angles0 niter0 kwargs0"

text \<open>
  \<^verbatim>\<open>cls(proj, geo, angles, niter, **kwargs)\<close>: Python runs the method that the name
  \<^verbatim>\<open>__init__\<close> resolves to. The last branch (a name that resolves to no constructor of
  the file) is reached by neither class.
\<close>

definition instantiate ::
  "cls \<Rightarrow> ((nat list \<Rightarrow> 'p) \<Rightarrow> 'g \<Rightarrow> angle list \<Rightarrow> int \<Rightarrow> kwargs \<Rightarrow> error + ('v, 'p, 'g) IterativeReconAlg)
     \<Rightarrow> (nat list \<Rightarrow> 'p) \<Rightarrow> 'g \<Rightarrow> angle list \<Rightarrow> int \<Rightarrow> kwargs \<Rightarrow> error + ('v, 'p, 'g) FISTA" where
  "instantiate c base_init proj0 geo0 angles0 niter0 kwargs0 =
     (case lookup_method c ''__init__'' of
        Some M_FISTA_init \<Rightarrow> FISTA_init base_init proj0 geo0 angles0 niter0 kwargs0
      | _ \<Rightarrow> Inl TypeError)"

text \<open>\<^verbatim>\<open>alg.run_main_iter()\<close> on an instance of class \<open>c\<close>.\<close>

definition run_main_iter ::
  "cls \<Rightarrow> ('v::real_vector, 'p::real_vector, 'g) collaborators
     \<Rightarrow> ('v, 'p, 'g) FISTA \<Rightarrow> error option \<times> ('v, 'p, 'g) FISTA" where
  "run_main_iter c ext self =
     (case lookup_method c ''run_main_iter'' of
        Some M_FISTA_run_main_iter \<Rightarrow> FISTA_run_main_iter ext self
      | Some M_ISTA_run_main_iter \<Rightarrow> ISTA_run_main_iter ext self
      | _ \<Rightarrow> (Some TypeError, self))"

subsection \<open>A concrete configuration for the examples\<close>

text \<open>
  Volumes and projection stacks of one entry (\<open>real\<close>), identity projectors, an
  identity denoiser, four angles and every measured row equal to one.
\<close>

definition example_ext :: "(real, real, unit) collaborators" where
  "example_ext =
     \<lparr>Ax = (\<lambda>v g a m. v), Atb = (\<lambda>p g a m. p), im3ddenoise = (\<lambda>v n s. v),
      quality_metric = (\<lambda>name prev cur. case prev of None \<Rightarrow> 0 | Some p \<Rightarrow> cur - p)\<rparr>"

definition example_angles :: "angle list" where
  "example_angles = [(0, 0, 0), (1, 0, 0), (2, 0, 0), (3, 0, 0)]"

definition example_proj :: "nat list \<Rightarrow> real" where
  "example_proj idx = 1"

text \<open>Modelled from the spec: the \<^verbatim>\<open>ordered\<close> strategy of the Subset Scheduler (4.1),
  contiguous blocks of \<open>b\<close> indices in input order (\<open>k\<close> bounds the number of blocks).\<close>

primrec ordered_blocks :: "nat \<Rightarrow> nat \<Rightarrow> nat list \<Rightarrow> nat list list" where
  "ordered_blocks 0 b xs = []"
| "ordered_blocks (Suc k) b xs =
     (if xs = [] then [] else take b xs # ordered_blocks k b (drop b xs))"

text \<open>
  Modelled from the spec: an instance of \<^verbatim>\<open>IterativeReconAlg.__init__\<close> (not part of
  the file) for the examples, after 4.1 and 4.2 of the specification with the default
  policies: the estimate initialised to zero, the \<^verbatim>\<open>ordered\<close> strategy splitting the
  indices into contiguous blocks of the requested block size, and
  \<^verbatim>\<open>InvalidConfiguration\<close> when the block size is zero or exceeds the angle count.
\<close>

definition example_base_init ::
  "(nat list \<Rightarrow> real) \<Rightarrow> unit \<Rightarrow> angle list \<Rightarrow> int \<Rightarrow> kwargs
     \<Rightarrow> error + (real, real, unit) IterativeReconAlg" where
  "example_base_init proj0 geo0 angles0 niter0 kwargs0 =
     (case kwargs0 ''blocksize'' of
        Some (PyInt b) \<Rightarrow>
          (if b \<le> 0 \<or> int (length angles0) < b then Inl InvalidConfiguration
           else Inr \<lparr>res = 0, proj = proj0, geo = geo0, angles = angles0, niter = niter0,
                     angle_index =
                       ordered_blocks (length angles0) (nat b) [0..<length angles0],
                     Quameasopts =
                       (case kwargs0 ''Quameasopts'' of Some (PyStrs q) \<Rightarrow> Some q | _ \<Rightarrow> None),
                     verbose = (kwargs0 ''verbose'' \<noteq> Some (PyBool False)),
                     lq = [], calls = []\<rparr>)
      | _ \<Rightarrow> Inl InvalidConfiguration)"

definition example_self :: "(real, real, unit) FISTA" where
  "example_self =
     \<lparr>res = 0, proj = example_proj, geo = (), angles = example_angles, niter = 2,
      angle_index = [[0, 1, 2, 3]], Quameasopts = Some [''RMSE''], verbose = True,
      lq = [], calls = [],
      lmbda = 1 / 10, priv_L = PyFloat 4, priv_numiter_tv = PyInt 7,
      priv_lambda = PyFloat (1 / 10), priv_t = 1, priv_bm = 1 / 4\<rparr>"

definition example_kwargs :: kwargs where
  "example_kwargs =
     [''hyper'' \<mapsto> PyFloat 4, ''tviter'' \<mapsto> PyInt 7, ''blocksize'' \<mapsto> PyInt 1,
      ''Quameasopts'' \<mapsto> PyStrs [''RMSE'']]"

text \<open>The object every default leaves, for one iteration.\<close>

definition default_self :: "(real, real, unit) FISTA" where
  "default_self =
     \<lparr>res = 0, proj = example_proj, geo = (), angles = example_angles, niter = 1,
      angle_index = [[0, 1, 2, 3]], Quameasopts = None, verbose = True,
      lq = [], calls = [],
      lmbda = 1 / 10, priv_L = PyFloat 20000, priv_numiter_tv = PyInt 20,
      priv_lambda = PyFloat (1 / 10), priv_t = 1, priv_bm = 1 / 20000\<rparr>"

subsection \<open>Notions the statements use\<close>

text \<open>The momentum sequence as the specification writes it: \<open>t\<^sub>1 = 1\<close> and
  \<open>t\<^bsub>i+1\<^esub> = (1 + sqrt (1 + 4 t\<^sub>i\<^sup>2)) / 2\<close>; \<open>momentum k\<close> is \<open>t\<^bsub>k+1\<^esub>\<close>.\<close>

fun momentum :: "nat \<Rightarrow> real" where
  "momentum 0 = 1"
| "momentum (Suc k) = (1 + sqrt (1 + 4 * (momentum k) ^ 2)) / 2"

text \<open>The attributes \<^verbatim>\<open>FISTA.__init__\<close> sets.\<close>

definition hyperparameters ::
  "('v, 'p, 'g) FISTA \<Rightarrow> real \<times> pyval \<times> pyval \<times> pyval \<times> real \<times> real" where
  "hyperparameters self =
     (lmbda self, priv_L self, priv_numiter_tv self, priv_lambda self, priv_t self,
      priv_bm self)"

text \<open>The arguments of the denoiser calls and of the metric-recording calls in a list
  of calls, in order.\<close>

fun denoise_calls :: "('v, 'p) call list \<Rightarrow> ('v \<times> pyval \<times> real) list" where
  "denoise_calls [] = []"
| "denoise_calls (Call_im3ddenoise v n s # cs) = (v, n, s) # denoise_calls cs"
| "denoise_calls (c # cs) = denoise_calls cs"

fun error_measurement_calls :: "('v, 'p) call list \<Rightarrow> ('v option \<times> nat) list" where
  "error_measurement_calls [] = []"
| "error_measurement_calls (Call_error_measurement r i # cs) =
     (r, i) # error_measurement_calls cs"
| "error_measurement_calls (c # cs) = error_measurement_calls cs"

text \<open>\<open>k\<close> calls of \<^verbatim>\<open>run_main_iter\<close> on the same object, one after the other.\<close>

fun runs ::
  "cls \<Rightarrow> ('v::real_vector, 'p::real_vector, 'g) collaborators \<Rightarrow> nat
     \<Rightarrow> ('v, 'p, 'g) FISTA \<Rightarrow> ('v, 'p, 'g) FISTA" where
  "runs c ext 0 self = self"
| "runs c ext (Suc k) self = snd (run_main_iter c ext (runs c ext k self))"

section \<open>Auxiliary lemmas\<close>

subsection \<open>Lookup\<close>

lemma lookup_init: "lookup_method c ''__init__'' = Some M_FISTA_init"
  by (cases c) (simp_all add: lookup_method_def)

lemma instantiate_eq: "instantiate c base p g a n kw = FISTA_init base p g a n kw"
  by (simp add: instantiate_def lookup_init)

subsection \<open>The momentum sequence\<close>

lemma momentum_step_gt: "t < (1 + sqrt (1 + 4 * t ^ 2)) / 2"
proof -
  have "(2 * t) ^ 2 < 1 + 4 * t ^ 2" by (simp add: power2_eq_square)
  hence "sqrt ((2 * t) ^ 2) < sqrt (1 + 4 * t ^ 2)" by (simp only: real_sqrt_less_iff)
  hence "\<bar>2 * t\<bar> < sqrt (1 + 4 * t ^ 2)" by (simp only: real_sqrt_abs)
  moreover have "2 * t \<le> \<bar>2 * t\<bar>" by simp
  ultimately have "2 * t < sqrt (1 + 4 * t ^ 2)" by linarith
  thus ?thesis by simp
qed

lemma momentum_step_ge1: "1 \<le> (1 + sqrt (1 + 4 * t ^ 2)) / 2"
proof -
  have "sqrt 1 \<le> sqrt (1 + 4 * t ^ 2)" by (simp only: real_sqrt_le_iff) simp
  thus ?thesis by simp
qed

subsection \<open>Calls\<close>

lemma denoise_calls_append:
  "denoise_calls (cs @ ds) = denoise_calls cs @ denoise_calls ds"
  by (induction cs rule: denoise_calls.induct) simp_all

lemma error_measurement_calls_append:
  "error_measurement_calls (cs @ ds) = error_measurement_calls cs @ error_measurement_calls ds"
  by (induction cs rule: error_measurement_calls.induct) simp_all

subsection \<open>What the gradient pass leaves alone\<close>

lemma update_image_hyper:
  "hyperparameters (snd (update_image ext g a j self)) = hyperparameters self"
  by (simp add: update_image_def hyperparameters_def Let_def)

lemma update_image_calls:
  "denoise_calls (calls (snd (update_image ext g a j self))) = denoise_calls (calls self)"
  "error_measurement_calls (calls (snd (update_image ext g a j self))) =
     error_measurement_calls (calls self)"
  by (simp_all add: update_image_def Let_def denoise_calls_append error_measurement_calls_append)

lemma data_minimizing_blocks_frame:
  "hyperparameters (snd (data_minimizing_blocks ext js self)) = hyperparameters self \<and>
   denoise_calls (calls (snd (data_minimizing_blocks ext js self))) = denoise_calls (calls self) \<and>
   error_measurement_calls (calls (snd (data_minimizing_blocks ext js self))) =
     error_measurement_calls (calls self)"
proof (induction js arbitrary: self)
  case Nil
  show ?case by simp
next
  case (Cons j js)
  let ?a = "the (block_angles (angles self) (angle_index self ! j))"
  show ?case
  proof (cases "update_image ext (geo self) ?a j self")
    case (Pair e s)
    have h: "hyperparameters s = hyperparameters self"
      "denoise_calls (calls s) = denoise_calls (calls self)"
      "error_measurement_calls (calls s) = error_measurement_calls (calls self)"
      using update_image_hyper[of ext "geo self" ?a j self]
        update_image_calls[of ext "geo self" ?a j self] Pair by simp_all
    show ?thesis using Pair h Cons.IH[of s]
      by (auto split: option.splits)
  qed
qed

lemma data_minimizing_frame:
  "hyperparameters (snd (data_minimizing ext self)) = hyperparameters self"
  "denoise_calls (calls (snd (data_minimizing ext self))) = denoise_calls (calls self)"
  "error_measurement_calls (calls (snd (data_minimizing ext self))) =
     error_measurement_calls (calls self)"
  by (simp_all add: data_minimizing_def data_minimizing_blocks_frame)

lemma hyperparameters_simps:
  "hyperparameters (self\<lparr>calls := c\<rparr>) = hyperparameters self"
  "hyperparameters (self\<lparr>res := v\<rparr>) = hyperparameters self"
  "hyperparameters (self\<lparr>lq := q\<rparr>) = hyperparameters self"
  by (simp_all add: hyperparameters_def)

lemma error_measurement_hyper:
  "hyperparameters (error_measurement ext r i self) = hyperparameters self"
  by (simp add: error_measurement_def hyperparameters_def Let_def split: option.splits)

lemma error_measurement_calls_eq:
  "calls (error_measurement ext r i self) = calls self @ [Call_error_measurement r i]"
  by (simp add: error_measurement_def Let_def split: option.splits)

lemma error_measurement_res:
  "res (error_measurement ext r i self) = res self"
  by (simp add: error_measurement_def Let_def split: option.splits)

subsection \<open>One pass of each loop body\<close>

lemma FISTA_iteration_success:
  assumes "fst (FISTA_iteration ext Q lam i (t, x, self)) = None"
  shows "fst (data_minimizing ext self) = None \<and> lam \<noteq> 0 \<and>
    snd (FISTA_iteration ext Q lam i (t, x, self)) =
      ((1 + sqrt (1 + 4 * t ^ 2)) / 2,
       im3ddenoise ext (res (snd (data_minimizing ext self)))
         (priv_numiter_tv (snd (data_minimizing ext self))) (1 / lam),
       error_measurement ext (case Q of None \<Rightarrow> None | Some q \<Rightarrow> Some (res self)) i
         ((snd (data_minimizing ext self))
            \<lparr>calls := calls (snd (data_minimizing ext self)) @
               [Call_im3ddenoise (res (snd (data_minimizing ext self)))
                  (priv_numiter_tv (snd (data_minimizing ext self))) (1 / lam)],
             res := im3ddenoise ext (res (snd (data_minimizing ext self)))
                  (priv_numiter_tv (snd (data_minimizing ext self))) (1 / lam) +
                ((t - 1) / ((1 + sqrt (1 + 4 * t ^ 2)) / 2)) *\<^sub>R
                (im3ddenoise ext (res (snd (data_minimizing ext self)))
                  (priv_numiter_tv (snd (data_minimizing ext self))) (1 / lam) - x)\<rparr>))"
proof (cases "data_minimizing ext self")
  case (Pair e s)
  show ?thesis using assms Pair
    by (cases e; cases "lam = 0") (simp_all add: FISTA_iteration_def Let_def)
qed

lemma FISTA_iteration_hyper:
  "hyperparameters (snd (snd (snd (FISTA_iteration ext Q lam i loc)))) =
     hyperparameters (snd (snd loc))"
proof (cases loc)
  case (fields t x self)
  show ?thesis
  proof (cases "data_minimizing ext self")
    case (Pair e s)
    have h: "hyperparameters s = hyperparameters self"
      using data_minimizing_frame(1)[of ext self] Pair by simp
    show ?thesis using Pair h fields
      by (cases e)
        (simp_all add: FISTA_iteration_def Let_def error_measurement_hyper hyperparameters_simps)
  qed
qed

lemma ISTA_iteration_success:
  assumes "fst (ISTA_iteration ext Q lam i self) = None"
  shows "fst (data_minimizing ext self) = None \<and> lam \<noteq> 0 \<and>
    snd (ISTA_iteration ext Q lam i self) =
       error_measurement ext (case Q of None \<Rightarrow> None | Some q \<Rightarrow> Some (res self)) i
         ((snd (data_minimizing ext self))
            \<lparr>res := im3ddenoise ext (res (snd (data_minimizing ext self))) (PyInt 20) (1 / lam),
             calls := calls (snd (data_minimizing ext self)) @
               [Call_im3ddenoise (res (snd (data_minimizing ext self))) (PyInt 20) (1 / lam)]\<rparr>)"
proof (cases "data_minimizing ext self")
  case (Pair e s)
  show ?thesis using assms Pair
    by (cases e; cases "lam = 0") (simp_all add: ISTA_iteration_def Let_def)
qed

lemma ISTA_iteration_hyper:
  "hyperparameters (snd (ISTA_iteration ext Q lam i self)) = hyperparameters self"
proof (cases "data_minimizing ext self")
  case (Pair e s)
  have h: "hyperparameters s = hyperparameters self"
    using data_minimizing_frame(1)[of ext self] Pair by simp
  show ?thesis using Pair h
    by (cases e)
      (simp_all add: ISTA_iteration_def Let_def error_measurement_hyper hyperparameters_simps)
qed

subsection \<open>The loops\<close>

lemma FISTA_loop_hyper:
  "hyperparameters (snd (snd (snd (FISTA_loop ext Q lam is loc)))) =
     hyperparameters (snd (snd loc))"
proof (induction "is" arbitrary: loc)
  case Nil
  show ?case by simp
next
  case (Cons i "is")
  obtain e loc' where P: "FISTA_iteration ext Q lam i loc = (e, loc')"
    by (cases "FISTA_iteration ext Q lam i loc") blast
  have "hyperparameters (snd (snd loc')) = hyperparameters (snd (snd loc))"
    using FISTA_iteration_hyper[of ext Q lam i loc] P by simp
  thus ?case using P Cons.IH[of loc'] by (cases e) simp_all
qed

lemma ISTA_loop_hyper:
  "hyperparameters (snd (ISTA_loop ext Q lam is self)) = hyperparameters self"
proof (induction "is" arbitrary: self)
  case Nil
  show ?case by simp
next
  case (Cons i "is")
  obtain e s where P: "ISTA_iteration ext Q lam i self = (e, s)"
    by (cases "ISTA_iteration ext Q lam i self") blast
  have "hyperparameters s = hyperparameters self"
    using ISTA_iteration_hyper[of ext Q lam i self] P by simp
  thus ?case using P Cons.IH[of s] by (cases e) simp_all
qed

lemma FISTA_loop_append:
  "FISTA_loop ext Q lam (is @ js) loc =
     (case FISTA_loop ext Q lam is loc of
        (Some e, loc') \<Rightarrow> (Some e, loc')
      | (None, loc') \<Rightarrow> FISTA_loop ext Q lam js loc')"
proof (induction "is" arbitrary: loc)
  case Nil
  show ?case by simp
next
  case (Cons i "is")
  obtain e loc' where P: "FISTA_iteration ext Q lam i loc = (e, loc')"
    by (cases "FISTA_iteration ext Q lam i loc") blast
  show ?case using P Cons.IH[of loc'] by (cases e) simp_all
qed

lemma FISTA_loop_snoc:
  assumes "fst (FISTA_loop ext Q lam (is @ [i]) loc) = None"
  shows "fst (FISTA_loop ext Q lam is loc) = None \<and>
    fst (FISTA_iteration ext Q lam i (snd (FISTA_loop ext Q lam is loc))) = None \<and>
    snd (FISTA_loop ext Q lam (is @ [i]) loc) =
      snd (FISTA_iteration ext Q lam i (snd (FISTA_loop ext Q lam is loc)))"
proof -
  obtain e loc' where P: "FISTA_loop ext Q lam is loc = (e, loc')"
    by (cases "FISTA_loop ext Q lam is loc") blast
  obtain e' loc'' where P': "FISTA_iteration ext Q lam i loc' = (e', loc'')"
    by (cases "FISTA_iteration ext Q lam i loc'") blast
  have e: "e = None" using assms P by (cases e) (simp_all add: FISTA_loop_append)
  have e': "e' = None" using assms P P' e by (cases e') (simp_all add: FISTA_loop_append)
  show ?thesis using P P' e e' by (simp add: FISTA_loop_append)
qed

lemma FISTA_loop_momentum:
  "fst (FISTA_loop ext Q lam [0..<k] (t, x, self)) = None \<Longrightarrow>
   fst (snd (FISTA_loop ext Q lam [0..<k] (t, x, self))) =
     ((\<lambda>u. (1 + sqrt (1 + 4 * u ^ 2)) / 2) ^^ k) t"
proof (induction k)
  case 0
  show ?case by simp
next
  case (Suc k)
  have S: "fst (FISTA_loop ext Q lam ([0..<k] @ [k]) (t, x, self)) = None"
    using Suc.prems by simp
  note sn = FISTA_loop_snoc[OF S]
  obtain t' x' s' where L: "snd (FISTA_loop ext Q lam [0..<k] (t, x, self)) = (t', x', s')"
    by (cases "snd (FISTA_loop ext Q lam [0..<k] (t, x, self))") blast
  have t': "t' = ((\<lambda>u. (1 + sqrt (1 + 4 * u ^ 2)) / 2) ^^ k) t"
    using Suc.IH sn L by simp
  have it: "fst (FISTA_iteration ext Q lam k (t', x', s')) = None"
    using sn L by simp
  have "fst (snd (FISTA_loop ext Q lam ([0..<k] @ [k]) (t, x, self))) =
      (1 + sqrt (1 + 4 * t' ^ 2)) / 2"
    using sn L FISTA_iteration_success[OF it] by simp
  thus ?case using t' by simp
qed


subsection \<open>Evaluating the example\<close>

lemmas example_eval = update_image_def data_minimizing_def block_angles_def
  error_measurement_def FISTA_iteration_def FISTA_run_main_iter_def ISTA_iteration_def
  ISTA_run_main_iter_def float_mul_def example_ext_def example_self_def default_self_def
  example_angles_def example_proj_def Let_def run_main_iter_def lookup_method_def

section \<open>The claims\<close>

text \<open>
  C1. For every angle block, one gradient-step update (\<^verbatim>\<open>update_image\<close>, the method both
  \<^verbatim>\<open>ISTA\<close> and \<^verbatim>\<open>FISTA\<close> resolve the name to) replaces the estimate \<open>res\<close> by
  \<open>res + 2 * bm * Atb (proj[block] - Ax (res, block))\<close>: it adds \<open>2 * bm\<close> times the
  back-projected residual, and the result is not clamped at zero (the example ends
  below zero).
\<close>

theorem update_image_adds_scaled_backprojection:
  assumes "iteration < length (angle_index self)"
  shows "lookup_method c ''update_image'' = Some M_FISTA_update_image \<and>
    fst (update_image ext g a iteration self) = None \<and>
    res (snd (update_image ext g a iteration self)) =
      res self + (2 * priv_bm self) *\<^sub>R
        Atb ext (proj self (angle_index self ! iteration) - Ax ext (res self) g a ''interpolated'')
          g a ''matched''"
  using assms by (cases c) (simp_all add: update_image_def Let_def lookup_method_def mult.commute)

theorem update_image_adds_scaled_backprojection_witness:
  "(0::nat) < length (angle_index (example_self\<lparr>proj := \<lambda>idx. - 1\<rparr>)) \<and>
   lookup_method Cls_ISTA ''update_image'' = Some M_FISTA_update_image \<and>
   fst (update_image example_ext () example_angles 0 (example_self\<lparr>proj := \<lambda>idx. - 1\<rparr>)) = None \<and>
   res (snd (update_image example_ext () example_angles 0 (example_self\<lparr>proj := \<lambda>idx. - 1\<rparr>)))
     = - 1 / 2"
proof -
  have h: "(0::nat) < length (angle_index (example_self\<lparr>proj := \<lambda>idx. - 1\<rparr>))"
    by (simp add: example_self_def)
  show ?thesis
    using h update_image_adds_scaled_backprojection[OF h, of Cls_ISTA example_ext "()" example_angles]
    by (simp add: example_self_def example_ext_def)
qed

text \<open>
  C2. In every FISTA iteration that completes, with \<open>x_rec_new\<close> the output of the
  denoiser on the gradient-updated estimate, the next estimate is
  \<open>x_rec_new + ((t_old - 1) / t_new) * (x_rec_new - x_rec_old)\<close>, where \<open>t_old\<close> and
  \<open>x_rec_old\<close> are the locals the iteration starts with and \<open>t_new\<close> is the updated,
  strictly larger coefficient; the loop hands \<open>t_new\<close> and \<open>x_rec_new\<close> to the next
  iteration, so each iteration extrapolates from the previous iteration's coefficient
  and denoised iterate.
\<close>

theorem FISTA_extrapolates_from_previous_iterate:
  assumes "fst (FISTA_iteration ext Q lam i (t_old, x_rec_old, self)) = None"
  shows "case snd (FISTA_iteration ext Q lam i (t_old, x_rec_old, self)) of
      (t_new, x_rec_new, self') \<Rightarrow>
        x_rec_new = im3ddenoise ext (res (snd (data_minimizing ext self)))
                      (priv_numiter_tv self) (1 / lam) \<and>
        t_new = (1 + sqrt (1 + 4 * t_old ^ 2)) / 2 \<and>
        t_old < t_new \<and>
        res self' = x_rec_new + ((t_old - 1) / t_new) *\<^sub>R (x_rec_new - x_rec_old) \<and>
        FISTA_loop ext Q lam (i # is) (t_old, x_rec_old, self) =
          FISTA_loop ext Q lam is (t_new, x_rec_new, self')"
proof -
  note s = FISTA_iteration_success[OF assms]
  have n: "priv_numiter_tv (snd (data_minimizing ext self)) = priv_numiter_tv self"
    using data_minimizing_frame(1)[of ext self] by (simp add: hyperparameters_def)
  obtain e loc where P: "FISTA_iteration ext Q lam i (t_old, x_rec_old, self) = (e, loc)"
    by (cases "FISTA_iteration ext Q lam i (t_old, x_rec_old, self)") blast
  have e: "e = None" using assms P by simp
  show ?thesis using s n P e momentum_step_gt[of t_old]
    by (simp add: error_measurement_res)
qed


theorem FISTA_extrapolates_from_previous_iterate_witness:
  "fst (FISTA_iteration example_ext (Some [''RMSE'']) (1 / 20) 1
          ((1 + sqrt 5) / 2, 1 / 2, example_self\<lparr>res := 1 / 2\<rparr>)) = None \<and>
   res (snd (snd (snd (FISTA_iteration example_ext (Some [''RMSE'']) (1 / 20) 1
          ((1 + sqrt 5) / 2, 1 / 2, example_self\<lparr>res := 1 / 2\<rparr>))))) =
     3 / 4 + (((1 + sqrt 5) / 2 - 1) / ((1 + sqrt (1 + 4 * ((1 + sqrt 5) / 2) ^ 2)) / 2)) *\<^sub>R
       (3 / 4 - 1 / 2)"
proof -
  let ?loc = "((1 + sqrt 5) / 2, 1 / 2, example_self\<lparr>res := 1 / 2\<rparr>)"
  have h: "fst (FISTA_iteration example_ext (Some [''RMSE'']) (1 / 20) 1 ?loc) = None"
    by (simp add: example_eval)
  have d: "im3ddenoise example_ext
      (res (snd (data_minimizing example_ext (example_self\<lparr>res := 1 / 2\<rparr>))))
      (priv_numiter_tv (example_self\<lparr>res := 1 / 2\<rparr>)) (1 / (1 / 20)) = 3 / 4"
    by (simp add: example_eval)
  obtain tn xn s' where
    R: "snd (FISTA_iteration example_ext (Some [''RMSE'']) (1 / 20) 1 ?loc) = (tn, xn, s')"
    by (cases "snd (FISTA_iteration example_ext (Some [''RMSE'']) (1 / 20) 1 ?loc)") blast
  have f: "xn = 3 / 4" "tn = (1 + sqrt (1 + 4 * ((1 + sqrt 5) / 2) ^ 2)) / 2"
    "res s' = xn + (((1 + sqrt 5) / 2 - 1) / tn) *\<^sub>R (xn - 1 / 2)"
    using FISTA_extrapolates_from_previous_iterate[OF h, of "[]"] R d by simp_all
  have "res s' = 3 / 4 + (((1 + sqrt 5) / 2 - 1) / ((1 + sqrt (1 + 4 * ((1 + sqrt 5) / 2) ^ 2)) / 2)) *\<^sub>R
       (3 / 4 - 1 / 2)"
    by (simp only: f)
  thus ?thesis using h R by simp
qed

subsection \<open>Construction and the momentum sequence\<close>

lemma momentum_funpow: "((\<lambda>u. (1 + sqrt (1 + 4 * u ^ 2)) / 2) ^^ k) 1 = momentum k"
  by (induction k) simp_all

lemma FISTA_init_eq:
  "FISTA_init base p g a n kw =
     (case base p g a n (kw(''W'' \<mapsto> PyNone, ''V'' \<mapsto> PyNone,
                   ''blocksize'' \<mapsto> PyInt (int (length a)))) of
        Inl e \<Rightarrow> Inl e
      | Inr b \<Rightarrow>
          (case as_number (case kw ''hyper'' of None \<Rightarrow> PyFloat 20000 | Some v \<Rightarrow> v) of
             None \<Rightarrow> Inl TypeError
           | Some L \<Rightarrow>
               if L = 0 then Inl ZeroDivisionError
               else Inr (IterativeReconAlg.extend b
                 \<lparr>lmbda = 1 / 10,
                  priv_L = (case kw ''hyper'' of None \<Rightarrow> PyFloat 20000 | Some v \<Rightarrow> v),
                  priv_numiter_tv = (case kw ''tviter'' of None \<Rightarrow> PyInt 20 | Some v \<Rightarrow> v),
                  priv_lambda = (case kw ''lambda'' of None \<Rightarrow> PyFloat (1 / 10) | Some v \<Rightarrow> v),
                  priv_t = 1, priv_bm = 1 / L\<rparr>)))"
  by (simp add: FISTA_init_def Let_def float_truediv_def split: sum.splits option.splits)

lemma FISTA_init_Inr:
  assumes "FISTA_init base p g a n kw = Inr self"
  shows "\<exists>b L. base p g a n (kw(''W'' \<mapsto> PyNone, ''V'' \<mapsto> PyNone,
                   ''blocksize'' \<mapsto> PyInt (int (length a)))) = Inr b \<and>
      as_number (case kw ''hyper'' of None \<Rightarrow> PyFloat 20000 | Some v \<Rightarrow> v) = Some L \<and> L \<noteq> 0 \<and>
      self = IterativeReconAlg.extend b
        \<lparr>lmbda = 1 / 10,
         priv_L = (case kw ''hyper'' of None \<Rightarrow> PyFloat 20000 | Some v \<Rightarrow> v),
         priv_numiter_tv = (case kw ''tviter'' of None \<Rightarrow> PyInt 20 | Some v \<Rightarrow> v),
         priv_lambda = (case kw ''lambda'' of None \<Rightarrow> PyFloat (1 / 10) | Some v \<Rightarrow> v),
         priv_t = 1, priv_bm = 1 / L\<rparr>"
proof (cases "base p g a n (kw(''W'' \<mapsto> PyNone, ''V'' \<mapsto> PyNone,
                   ''blocksize'' \<mapsto> PyInt (int (length a))))")
  case (Inl e)
  thus ?thesis using assms by (simp add: FISTA_init_eq)
next
  case (Inr b)
  show ?thesis
  proof (cases "as_number (case kw ''hyper'' of None \<Rightarrow> PyFloat 20000 | Some v \<Rightarrow> v)")
    case None
    thus ?thesis using assms Inr by (simp add: FISTA_init_eq)
  next
    case (Some L)
    thus ?thesis using assms Inr by (cases "L = 0") (simp_all add: FISTA_init_eq)
  qed
qed

lemma FISTA_init_priv_t: "FISTA_init base p g a n kw = Inr self \<Longrightarrow> priv_t self = 1"
  by (drule FISTA_init_Inr) (auto simp: IterativeReconAlg.extend_def)

lemma example_init:
  "FISTA_init example_base_init example_proj () example_angles 2 example_kwargs = Inr example_self"
  by (simp add: FISTA_init_def example_base_init_def
      float_truediv_def example_angles_def example_kwargs_def example_self_def
      IterativeReconAlg.extend_def)

lemma default_init:
  "FISTA_init example_base_init example_proj () example_angles 1 Map.empty = Inr default_self"
  by (simp add: FISTA_init_def example_base_init_def
      float_truediv_def example_angles_def default_self_def
      IterativeReconAlg.extend_def)

text \<open>
  C3. FISTA's momentum sequence starts at \<open>t\<^sub>1 = 1\<close> (the attribute the constructor
  sets, which the loop copies), the coefficient after \<open>k\<close> completed iterations is the
  \<open>k\<close>-th successor of that under \<open>t \<mapsto> (1 + sqrt (1 + 4 t\<^sup>2)) / 2\<close>, and each
  coefficient is strictly smaller than the next. Over the reals.
\<close>

theorem FISTA_momentum_sequence:
  assumes "FISTA_init base p g a n kw = Inr self"
    and "fst (FISTA_loop ext Q lam [0..<k] (priv_t self, res self, self)) = None"
  shows "priv_t self = 1 \<and> momentum 0 = 1 \<and>
    fst (snd (FISTA_loop ext Q lam [0..<k] (priv_t self, res self, self))) = momentum k \<and>
    momentum (Suc k) = (1 + sqrt (1 + 4 * (momentum k) ^ 2)) / 2 \<and>
    momentum k < momentum (Suc k)"
  using FISTA_init_priv_t[OF assms(1)] FISTA_loop_momentum[OF assms(2)]
    momentum_step_gt[of "momentum k"]
  by (simp add: momentum_funpow)

theorem FISTA_momentum_sequence_witness:
  "FISTA_init example_base_init example_proj () example_angles 2 example_kwargs = Inr example_self \<and>
   fst (FISTA_loop example_ext (Some [''RMSE'']) (1 / 20) [0..<2] (1, 0, example_self)) = None \<and>
   fst (snd (FISTA_loop example_ext (Some [''RMSE'']) (1 / 20) [0..<2] (1, 0, example_self))) =
     momentum 2 \<and>
   momentum 2 < momentum 3"
proof -
  have pt: "priv_t example_self = 1" "res example_self = 0" by (simp_all add: example_self_def)
  have h: "fst (FISTA_loop example_ext (Some [''RMSE'']) (1 / 20) [0..<2]
             (priv_t example_self, res example_self, example_self)) = None"
    by (simp add: example_eval numeral_2_eq_2)
  show ?thesis
    using example_init h FISTA_momentum_sequence[OF example_init h] pt
    by (simp add: numeral_3_eq_3 numeral_2_eq_2)
qed

text \<open>
  C8. Construction of \<^verbatim>\<open>FISTA\<close>, and of \<^verbatim>\<open>ISTA\<close>, where the base-class constructor
  returns and \<^verbatim>\<open>hyper\<close> is absent or a non-zero number: the object has \<open>bm = 1 / L\<close>
  with \<open>L\<close> the supplied \<^verbatim>\<open>hyper\<close>, or \<open>2.0e4\<close> when it is absent; \<^verbatim>\<open>tviter\<close> defaults
  to 20 and \<^verbatim>\<open>lambda\<close> to 0.1; and the momentum coefficient is 1.
\<close>

theorem FISTA_init_hyperparameters:
  assumes "base p g a n (kw(''W'' \<mapsto> PyNone, ''V'' \<mapsto> PyNone,
                   ''blocksize'' \<mapsto> PyInt (int (length a)))) = Inr b"
    and "as_number (case kw ''hyper'' of None \<Rightarrow> PyFloat 20000 | Some v \<Rightarrow> v) = Some L"
    and "L \<noteq> 0"
  shows "\<exists>self. instantiate c base p g a n kw = Inr self \<and>
    priv_L self = (case kw ''hyper'' of None \<Rightarrow> PyFloat 20000 | Some v \<Rightarrow> v) \<and>
    priv_bm self = 1 / L \<and>
    priv_numiter_tv self = (case kw ''tviter'' of None \<Rightarrow> PyInt 20 | Some v \<Rightarrow> v) \<and>
    priv_lambda self = (case kw ''lambda'' of None \<Rightarrow> PyFloat (1 / 10) | Some v \<Rightarrow> v) \<and>
    priv_t self = 1"
  using assms by (simp add: instantiate_eq FISTA_init_eq IterativeReconAlg.extend_def)

theorem FISTA_init_hyperparameters_witness:
  "instantiate Cls_ISTA example_base_init example_proj () example_angles 1 Map.empty =
     Inr default_self \<and>
   priv_L default_self = PyFloat 20000 \<and> priv_bm default_self = 1 / 20000 \<and>
   priv_numiter_tv default_self = PyInt 20 \<and> priv_lambda default_self = PyFloat (1 / 10) \<and>
   priv_t default_self = 1 \<and>
   instantiate Cls_FISTA example_base_init example_proj () example_angles 2 example_kwargs =
     Inr example_self \<and>
   priv_L example_self = PyFloat 4 \<and> priv_bm example_self = 1 / 4 \<and>
   priv_numiter_tv example_self = PyInt 7"
proof -
  have b: "example_base_init example_proj () example_angles 1
      (Map.empty(''W'' \<mapsto> PyNone, ''V'' \<mapsto> PyNone,
         ''blocksize'' \<mapsto> PyInt (int (length example_angles)))) =
      Inr (IterativeReconAlg.truncate default_self)"
    by (simp add: example_base_init_def example_angles_def default_self_def
        IterativeReconAlg.truncate_def)
  have l: "as_number (case Map.empty ''hyper'' of None \<Rightarrow> PyFloat 20000 | Some v \<Rightarrow> v) =
      Some 20000" by simp
  have z: "(20000::real) \<noteq> 0" by simp
  have b': "example_base_init example_proj () example_angles 2
      (example_kwargs(''W'' \<mapsto> PyNone, ''V'' \<mapsto> PyNone,
         ''blocksize'' \<mapsto> PyInt (int (length example_angles)))) =
      Inr (IterativeReconAlg.truncate example_self)"
    by (simp add: example_base_init_def example_angles_def example_self_def example_kwargs_def
        IterativeReconAlg.truncate_def)
  have l': "as_number (case example_kwargs ''hyper'' of None \<Rightarrow> PyFloat 20000 | Some v \<Rightarrow> v) =
      Some 4" by (simp add: example_kwargs_def)
  have z': "(4::real) \<noteq> 0" by simp
  show ?thesis
    using FISTA_init_hyperparameters[where base = example_base_init and kw = Map.empty
        and c = Cls_ISTA, OF b l z]
      FISTA_init_hyperparameters[where base = example_base_init and kw = example_kwargs
        and c = Cls_FISTA, OF b' l' z']
    by (simp add: instantiate_eq default_init example_init)
      (simp add: default_self_def example_self_def)
qed

text \<open>
  C10. \<^verbatim>\<open>ISTA\<close> defines \<^verbatim>\<open>__int__\<close> and no \<^verbatim>\<open>__init__\<close>, so the name \<^verbatim>\<open>__init__\<close> resolves
  to \<^verbatim>\<open>FISTA.__init__\<close> on both classes: for identical arguments \<^verbatim>\<open>ISTA\<close> and \<^verbatim>\<open>FISTA\<close>
  are constructed alike, also where construction raises. A block size, a \<^verbatim>\<open>W\<close> or a
  \<^verbatim>\<open>V\<close> that the caller supplies makes no difference, and the base-class constructor
  receives the angle count as block size and \<^verbatim>\<open>None\<close> for \<^verbatim>\<open>W\<close> and \<^verbatim>\<open>V\<close>; the object
  is what it returns, with the attributes of \<^verbatim>\<open>FISTA.__init__\<close> added.
\<close>

theorem ISTA_instantiate_is_FISTA_init:
  "class_dict Cls_ISTA ''__init__'' = None \<and>
   class_dict Cls_ISTA ''__int__'' = Some M_ISTA_int \<and>
   lookup_method Cls_ISTA ''__init__'' = Some M_FISTA_init \<and>
   lookup_method Cls_FISTA ''__init__'' = Some M_FISTA_init \<and>
   instantiate Cls_ISTA base p g a n kw = instantiate Cls_FISTA base p g a n kw \<and>
   instantiate Cls_ISTA base p g a n kw = FISTA_init base p g a n kw \<and>
   instantiate c base p g a n (kw(''blocksize'' \<mapsto> bs, ''W'' \<mapsto> w, ''V'' \<mapsto> v)) =
     instantiate c base p g a n kw \<and>
   (instantiate c base p g a n kw = Inr self \<longrightarrow>
      base p g a n (kw(''W'' \<mapsto> PyNone, ''V'' \<mapsto> PyNone,
        ''blocksize'' \<mapsto> PyInt (int (length a)))) = Inr (IterativeReconAlg.truncate self))"
proof -
  have k: "(kw(''blocksize'' \<mapsto> bs, ''W'' \<mapsto> w, ''V'' \<mapsto> v))
             (''W'' \<mapsto> PyNone, ''V'' \<mapsto> PyNone, ''blocksize'' \<mapsto> PyInt (int (length a))) =
           kw(''W'' \<mapsto> PyNone, ''V'' \<mapsto> PyNone, ''blocksize'' \<mapsto> PyInt (int (length a)))"
    by (rule ext) simp
  have o: "FISTA_init base p g a n (kw(''blocksize'' \<mapsto> bs, ''W'' \<mapsto> w, ''V'' \<mapsto> v)) =
      FISTA_init base p g a n kw"
  proof -
    let ?kw = "kw(''blocksize'' \<mapsto> bs, ''W'' \<mapsto> w, ''V'' \<mapsto> v)"
    have l: "?kw ''hyper'' = kw ''hyper''" "?kw ''tviter'' = kw ''tviter''"
      "?kw ''lambda'' = kw ''lambda''" by simp_all
    show ?thesis by (simp only: FISTA_init_eq k l)
  qed
  have t: "base p g a n (kw(''W'' \<mapsto> PyNone, ''V'' \<mapsto> PyNone,
        ''blocksize'' \<mapsto> PyInt (int (length a)))) = Inr (IterativeReconAlg.truncate self)"
    if i: "FISTA_init base p g a n kw = Inr self"
  proof -
    obtain b L where b: "base p g a n (kw(''W'' \<mapsto> PyNone, ''V'' \<mapsto> PyNone,
                     ''blocksize'' \<mapsto> PyInt (int (length a)))) = Inr b"
      and s: "self = IterativeReconAlg.extend b
          \<lparr>lmbda = 1 / 10,
           priv_L = (case kw ''hyper'' of None \<Rightarrow> PyFloat 20000 | Some v \<Rightarrow> v),
           priv_numiter_tv = (case kw ''tviter'' of None \<Rightarrow> PyInt 20 | Some v \<Rightarrow> v),
           priv_lambda = (case kw ''lambda'' of None \<Rightarrow> PyFloat (1 / 10) | Some v \<Rightarrow> v),
           priv_t = 1, priv_bm = 1 / L\<rparr>"
      using FISTA_init_Inr[OF i] by blast
    have "IterativeReconAlg.truncate self = b"
      unfolding s by (simp add: IterativeReconAlg.truncate_def IterativeReconAlg.extend_def)
    thus ?thesis using b by simp
  qed
  show ?thesis using o t
    by (simp add: instantiate_eq lookup_method_def)
qed

theorem ISTA_instantiate_is_FISTA_init_witness:
  "instantiate Cls_ISTA example_base_init example_proj () example_angles 2 example_kwargs =
     Inr example_self \<and>
   instantiate Cls_FISTA example_base_init example_proj () example_angles 2 example_kwargs =
     Inr example_self \<and>
   example_kwargs ''blocksize'' = Some (PyInt 1) \<and>
   angle_index example_self = [[0, 1, 2, 3]] \<and>
   instantiate Cls_ISTA example_base_init example_proj () example_angles 2
     (example_kwargs(''blocksize'' \<mapsto> PyInt 2, ''W'' \<mapsto> PyStr ''w'', ''V'' \<mapsto> PyStr ''v'')) =
     Inr example_self \<and>
   example_base_init example_proj () example_angles 2
     (example_kwargs(''W'' \<mapsto> PyNone, ''V'' \<mapsto> PyNone,
        ''blocksize'' \<mapsto> PyInt (int (length example_angles)))) =
     Inr (IterativeReconAlg.truncate example_self)"
proof -
  have h: "instantiate Cls_ISTA example_base_init example_proj () example_angles 2 example_kwargs =
     Inr example_self"
    by (simp add: instantiate_eq example_init)
  show ?thesis
    using h
      ISTA_instantiate_is_FISTA_init[of example_base_init example_proj "()" example_angles 2
        example_kwargs Cls_ISTA "PyInt 2" "PyStr ''w''" "PyStr ''v''" example_self]
    by (simp add: example_kwargs_def example_self_def)
qed

subsection \<open>Whole runs\<close>

lemma lookup_run:
  "lookup_method Cls_FISTA ''run_main_iter'' = Some M_FISTA_run_main_iter"
  "lookup_method Cls_ISTA ''run_main_iter'' = Some M_ISTA_run_main_iter"
  by (simp_all add: lookup_method_def)

lemma run_main_iter_eq:
  "run_main_iter Cls_FISTA ext self = FISTA_run_main_iter ext self"
  "run_main_iter Cls_ISTA ext self = ISTA_run_main_iter ext self"
  by (simp_all add: run_main_iter_def lookup_run)

lemma FISTA_run_main_iter_hyper:
  "hyperparameters (snd (FISTA_run_main_iter ext self)) = hyperparameters self"
proof (cases "float_mul (2 * priv_bm self) (priv_lambda self)")
  case (Inl e)
  thus ?thesis by (simp add: FISTA_run_main_iter_def)
next
  case (Inr lam)
  obtain e t' x' s' where P: "FISTA_loop ext (Quameasopts self) lam [0..<nat (niter self)]
      (priv_t self, res self, self) = (e, t', x', s')"
    by (cases "FISTA_loop ext (Quameasopts self) lam [0..<nat (niter self)]
      (priv_t self, res self, self)") blast
  have "hyperparameters s' = hyperparameters self"
    using FISTA_loop_hyper[of ext "Quameasopts self" lam "[0..<nat (niter self)]"
        "(priv_t self, res self, self)"] P by simp
  thus ?thesis using Inr P by (simp add: FISTA_run_main_iter_def)
qed

lemma ISTA_run_main_iter_hyper:
  "hyperparameters (snd (ISTA_run_main_iter ext self)) = hyperparameters self"
  by (simp add: ISTA_run_main_iter_def Let_def ISTA_loop_hyper)

lemma run_main_iter_hyper:
  "hyperparameters (snd (run_main_iter c ext self)) = hyperparameters self"
  by (cases c) (simp_all add: run_main_iter_eq FISTA_run_main_iter_hyper ISTA_run_main_iter_hyper)

lemma runs_hyper: "hyperparameters (runs c ext k self) = hyperparameters self"
  by (induction k) (simp_all add: run_main_iter_hyper)

lemma momentum_Suc_gt_1: "1 < momentum (Suc k)"
proof (induction k)
  case 0
  show ?case using momentum_step_gt[of 1] by simp
next
  case (Suc k)
  have "momentum (Suc k) < momentum (Suc (Suc k))"
    using momentum_step_gt[of "momentum (Suc k)"] by (simp only: momentum.simps)
  thus ?case using Suc.IH by linarith
qed

text \<open>
  C7. With \<open>niter = 0\<close>, \<^verbatim>\<open>run_main_iter\<close> of either class leaves the object as it found
  it: the estimate is the initial one and no projector, denoiser or metric call is made
  (the list of calls is a field of the object). \<^verbatim>\<open>ISTA\<close>'s returns; \<^verbatim>\<open>FISTA\<close>'s returns
  unless \<^verbatim>\<open>__lambda__\<close> is not a number, which raises before the loop.
\<close>

theorem niter_zero_identity:
  assumes "niter self = 0"
  shows "snd (run_main_iter c ext self) = self \<and>
    fst (ISTA_run_main_iter ext self) = None \<and>
    fst (FISTA_run_main_iter ext self) =
      (case as_number (priv_lambda self) of None \<Rightarrow> Some TypeError | Some l \<Rightarrow> None)"
  using assms
  by (cases c)
    (simp_all add: run_main_iter_eq FISTA_run_main_iter_def ISTA_run_main_iter_def float_mul_def
      Let_def split: option.splits)

theorem niter_zero_identity_witness:
  "niter (example_self\<lparr>niter := 0, res := 5\<rparr>) = 0 \<and>
   run_main_iter Cls_FISTA example_ext (example_self\<lparr>niter := 0, res := 5\<rparr>) =
     (None, example_self\<lparr>niter := 0, res := 5\<rparr>) \<and>
   run_main_iter Cls_ISTA example_ext (example_self\<lparr>niter := 0, res := 5\<rparr>) =
     (None, example_self\<lparr>niter := 0, res := 5\<rparr>) \<and>
   res (example_self\<lparr>niter := 0, res := 5\<rparr>) = 5 \<and>
   calls (example_self\<lparr>niter := 0, res := 5\<rparr>) = []"
proof -
  have h: "niter (example_self\<lparr>niter := 0, res := 5\<rparr>) = 0" by simp
  have l: "as_number (priv_lambda (example_self\<lparr>niter := 0, res := 5\<rparr>)) = Some (1 / 10)"
    by (simp add: example_self_def)
  show ?thesis
    using niter_zero_identity[OF h, of Cls_FISTA example_ext]
      niter_zero_identity[OF h, of Cls_ISTA example_ext] l
    by (simp add: run_main_iter_eq prod_eq_iff) (simp add: example_self_def)
qed

text \<open>
  C9. \<^verbatim>\<open>FISTA.run_main_iter\<close> never assigns the attribute \<^verbatim>\<open>__t__\<close>: whatever the
  outcome of a run, the attribute is what it was, so on a constructed object it is 1
  after any number of runs, and every run starts the momentum recursion of its loop
  from \<open>t = 1\<close> again.
\<close>

theorem run_main_iter_keeps_stored_momentum:
  assumes "FISTA_init base p g a n kw = Inr self0"
    and "self = runs Cls_FISTA ext k self0"
  shows "priv_t (snd (FISTA_run_main_iter ext s)) = priv_t s \<and>
    priv_t self = 1 \<and>
    priv_t (snd (FISTA_run_main_iter ext self)) = 1 \<and>
    FISTA_run_main_iter ext self =
      (case float_mul (2 * priv_bm self) (priv_lambda self) of
         Inl e \<Rightarrow> (Some e, self)
       | Inr lambdaForTv \<Rightarrow>
           (case FISTA_loop ext (Quameasopts self) lambdaForTv [0..<nat (niter self)]
                   (1, res self, self) of
              (e, t', x_rec', self') \<Rightarrow> (e, self')))"
proof -
  have g: "priv_t (snd (FISTA_run_main_iter ext s)) = priv_t s" for s
    using FISTA_run_main_iter_hyper[of ext s] by (simp add: hyperparameters_def)
  have t0: "priv_t self0 = 1" using FISTA_init_priv_t[OF assms(1)] .
  have t: "priv_t self = 1"
    using runs_hyper[of Cls_FISTA ext k self0] t0 assms(2) by (simp add: hyperparameters_def)
  show ?thesis using g[of s] g[of self] t
    by (simp add: FISTA_run_main_iter_def)
qed

theorem run_main_iter_keeps_stored_momentum_witness:
  "FISTA_init example_base_init example_proj () example_angles 2 example_kwargs = Inr example_self \<and>
   fst (run_main_iter Cls_FISTA example_ext example_self) = None \<and>
   priv_t (runs Cls_FISTA example_ext 1 example_self) = 1 \<and>
   priv_t (snd (FISTA_run_main_iter example_ext (runs Cls_FISTA example_ext 1 example_self))) = 1 \<and>
   1 < fst (snd (FISTA_loop example_ext (Some [''RMSE'']) (1 / 20) [0..<2] (1, 0, example_self)))"
proof -
  have r: "runs Cls_FISTA example_ext 1 example_self = runs Cls_FISTA example_ext 1 example_self"
    by (rule refl)
  have s: "fst (run_main_iter Cls_FISTA example_ext example_self) = None"
    by (simp add: example_eval numeral_2_eq_2)
  have l: "fst (FISTA_loop example_ext (Some [''RMSE'']) (1 / 20) [0..<2] (1, 0, example_self)) =
      None"
    by (simp add: example_eval numeral_2_eq_2)
  have m: "1 < fst (snd (FISTA_loop example_ext (Some [''RMSE'']) (1 / 20) [0..<2] (1, 0, example_self)))"
  proof -
    have "1 < momentum 2" unfolding numeral_2_eq_2 by (rule momentum_Suc_gt_1)
    thus ?thesis using FISTA_loop_momentum[OF l] by (simp only: momentum_funpow)
  qed
  note T = run_main_iter_keeps_stored_momentum[OF example_init r]
  have a: "priv_t (runs Cls_FISTA example_ext 1 example_self) = 1" using T by blast
  have b: "priv_t (snd (FISTA_run_main_iter example_ext
      (runs Cls_FISTA example_ext 1 example_self))) = 1" using T by blast
  show ?thesis using example_init s a b m by blast
qed

subsection \<open>The calls a loop makes\<close>

lemma FISTA_loop_Cons_success:
  assumes "fst (FISTA_loop ext Q lam (i # is) loc) = None"
  shows "fst (FISTA_iteration ext Q lam i loc) = None \<and>
    FISTA_loop ext Q lam (i # is) loc =
      FISTA_loop ext Q lam is (snd (FISTA_iteration ext Q lam i loc))"
proof -
  obtain e loc' where P: "FISTA_iteration ext Q lam i loc = (e, loc')"
    by (cases "FISTA_iteration ext Q lam i loc") blast
  show ?thesis using assms P by (cases e) simp_all
qed

lemma ISTA_loop_Cons_success:
  assumes "fst (ISTA_loop ext Q lam (i # is) self) = None"
  shows "fst (ISTA_iteration ext Q lam i self) = None \<and>
    ISTA_loop ext Q lam (i # is) self =
      ISTA_loop ext Q lam is (snd (ISTA_iteration ext Q lam i self))"
proof -
  obtain e s where P: "ISTA_iteration ext Q lam i self = (e, s)"
    by (cases "ISTA_iteration ext Q lam i self") blast
  show ?thesis using assms P by (cases e) simp_all
qed

lemma FISTA_iteration_denoise_calls:
  assumes "fst (FISTA_iteration ext Q lam i (t, x, self)) = None"
  shows "denoise_calls (calls (snd (snd (snd (FISTA_iteration ext Q lam i (t, x, self)))))) =
    denoise_calls (calls self) @
      [(res (snd (data_minimizing ext self)), priv_numiter_tv self, 1 / lam)]"
proof -
  have n: "priv_numiter_tv (snd (data_minimizing ext self)) = priv_numiter_tv self"
    using data_minimizing_frame(1)[of ext self] by (simp add: hyperparameters_def)
  show ?thesis using FISTA_iteration_success[OF assms] n
    by (simp add: error_measurement_calls_eq denoise_calls_append data_minimizing_frame(2))
qed

lemma ISTA_iteration_denoise_calls:
  assumes "fst (ISTA_iteration ext Q lam i self) = None"
  shows "denoise_calls (calls (snd (ISTA_iteration ext Q lam i self))) =
    denoise_calls (calls self) @ [(res (snd (data_minimizing ext self)), PyInt 20, 1 / lam)]"
  using ISTA_iteration_success[OF assms]
  by (simp add: error_measurement_calls_eq denoise_calls_append data_minimizing_frame(2))

lemma FISTA_loop_denoise_calls:
  "fst (FISTA_loop ext Q lam is loc) = None \<Longrightarrow>
   map snd (denoise_calls (calls (snd (snd (snd (FISTA_loop ext Q lam is loc)))))) =
     map snd (denoise_calls (calls (snd (snd loc)))) @
       replicate (length is) (priv_numiter_tv (snd (snd loc)), 1 / lam)"
proof (induction "is" arbitrary: loc)
  case Nil
  show ?case by simp
next
  case (Cons i "is")
  obtain t x self where loc: "loc = (t, x, self)" by (cases loc) blast
  note c = FISTA_loop_Cons_success[OF Cons.prems]
  let ?loc' = "snd (FISTA_iteration ext Q lam i loc)"
  have it: "fst (FISTA_iteration ext Q lam i (t, x, self)) = None" using c loc by simp
  have d: "denoise_calls (calls (snd (snd ?loc'))) =
      denoise_calls (calls self) @
        [(res (snd (data_minimizing ext self)), priv_numiter_tv self, 1 / lam)]"
    using FISTA_iteration_denoise_calls[OF it] loc by simp
  have n: "priv_numiter_tv (snd (snd ?loc')) = priv_numiter_tv self"
    using FISTA_iteration_hyper[of ext Q lam i loc] loc by (simp add: hyperparameters_def)
  have r: "fst (FISTA_loop ext Q lam is ?loc') = None" using c Cons.prems by simp
  show ?case using Cons.IH[OF r] c d n loc
    by (simp add: replicate_append_same)
qed

lemma ISTA_loop_denoise_calls:
  "fst (ISTA_loop ext Q lam is self) = None \<Longrightarrow>
   map snd (denoise_calls (calls (snd (ISTA_loop ext Q lam is self)))) =
     map snd (denoise_calls (calls self)) @ replicate (length is) (PyInt 20, 1 / lam)"
proof (induction "is" arbitrary: self)
  case Nil
  show ?case by simp
next
  case (Cons i "is")
  note c = ISTA_loop_Cons_success[OF Cons.prems]
  let ?s = "snd (ISTA_iteration ext Q lam i self)"
  have it: "fst (ISTA_iteration ext Q lam i self) = None" using c by simp
  have r: "fst (ISTA_loop ext Q lam is ?s) = None" using c Cons.prems by simp
  show ?case using Cons.IH[OF r] c ISTA_iteration_denoise_calls[OF it]
    by (simp add: replicate_append_same)
qed

text \<open>
  C4, as the claim states it, fails: with every option left at its default, the
  denoiser's third argument is \<open>100000\<close>, the reciprocal of \<open>lambdaForTv = 1 / 100000\<close>.
\<close>

theorem FISTA_denoiser_strength_counterexample:
  "fst (FISTA_run_main_iter example_ext default_self) = None \<and>
   denoise_calls (calls (snd (FISTA_run_main_iter example_ext default_self))) =
     [(1 / 10000, PyInt 20, 100000)] \<and>
   priv_lambda default_self = PyFloat (1 / 10) \<and>
   2 * priv_bm default_self * (1 / 10) = 1 / 100000 \<and>
   \<not> list_all (\<lambda>(v, n, s). s = 2 * priv_bm default_self * (1 / 10))
       (denoise_calls (calls (snd (FISTA_run_main_iter example_ext default_self))))"
  by (simp add: example_eval)

text \<open>
  C4, amended. In every FISTA iteration that completes, the denoiser is called once, on
  the gradient-updated estimate, with the configured \<^verbatim>\<open>tviter\<close> as its inner-iteration
  budget and with \<open>1 / lambdaForTv\<close> as its third argument, where
  \<open>lambdaForTv = 2 * bm * lambda\<close>; so a run that completes makes \<open>niter\<close> such calls.
\<close>

theorem FISTA_denoiser_arguments:
  assumes "as_number (priv_lambda self) = Some l"
    and "fst (FISTA_run_main_iter ext self) = None"
  shows "map snd (denoise_calls (calls (snd (FISTA_run_main_iter ext self)))) =
      map snd (denoise_calls (calls self)) @
        replicate (nat (niter self)) (priv_numiter_tv self, 1 / (2 * priv_bm self * l)) \<and>
    (fst (FISTA_iteration ext Q (2 * priv_bm self * l) i (t, x, self)) = None \<longrightarrow>
       denoise_calls (calls (snd (snd (snd
           (FISTA_iteration ext Q (2 * priv_bm self * l) i (t, x, self)))))) =
         denoise_calls (calls self) @
           [(res (snd (data_minimizing ext self)), priv_numiter_tv self,
             1 / (2 * priv_bm self * l))])"
proof -
  let ?lam = "2 * priv_bm self * l"
  let ?L = "FISTA_loop ext (Quameasopts self) ?lam [0..<nat (niter self)]
      (priv_t self, res self, self)"
  have m: "float_mul (2 * priv_bm self) (priv_lambda self) = Inr ?lam"
    using assms(1) by (simp add: float_mul_def)
  obtain e t' x' s' where P: "?L = (e, t', x', s')" by (cases ?L) blast
  have run: "FISTA_run_main_iter ext self = (e, s')"
    using m P by (simp add: FISTA_run_main_iter_def)
  have e: "fst ?L = None" using assms(2) run P by simp
  have "map snd (denoise_calls (calls s')) =
      map snd (denoise_calls (calls self)) @
        replicate (nat (niter self)) (priv_numiter_tv self, 1 / ?lam)"
    using FISTA_loop_denoise_calls[OF e] P by simp
  thus ?thesis using run FISTA_iteration_denoise_calls[of ext Q ?lam i t x self] by simp
qed

theorem FISTA_denoiser_arguments_witness:
  "as_number (priv_lambda example_self) = Some (1 / 10) \<and>
   fst (FISTA_run_main_iter example_ext example_self) = None \<and>
   map snd (denoise_calls (calls (snd (FISTA_run_main_iter example_ext example_self)))) =
     [(PyInt 7, 20), (PyInt 7, 20)] \<and>
   fst (FISTA_iteration example_ext None (1 / 20) 0 (1, 0, example_self)) = None \<and>
   denoise_calls (calls (snd (snd (snd
         (FISTA_iteration example_ext None (1 / 20) 0 (1, 0, example_self)))))) =
     [(1 / 2, PyInt 7, 20)]"
proof -
  have l: "as_number (priv_lambda example_self) = Some (1 / 10)"
    by (simp add: example_self_def)
  have r: "fst (FISTA_run_main_iter example_ext example_self) = None"
    by (simp add: example_eval numeral_2_eq_2)
  have i: "fst (FISTA_iteration example_ext None (1 / 20) 0 (1, 0, example_self)) = None"
    by (simp add: example_eval)
  have v: "priv_bm example_self = 1 / 4" "niter example_self = 2" "calls example_self = []"
    "priv_numiter_tv example_self = PyInt 7"
    "res (snd (data_minimizing example_ext example_self)) = 1 / 2"
    by (simp_all add: example_eval)
  show ?thesis
    using l r i FISTA_denoiser_arguments[OF l r, of None 0 1 0]
    by (simp add: v numeral_2_eq_2)
qed

text \<open>
  C5, as the claim states it, fails: with every option left at its default, the
  third argument of \<^verbatim>\<open>ISTA\<close>'s denoiser call is \<open>100000\<close>, the reciprocal of
  \<open>lambdaForTv = 1 / 100000\<close>.
\<close>

theorem ISTA_denoiser_strength_counterexample:
  "fst (ISTA_run_main_iter example_ext default_self) = None \<and>
   denoise_calls (calls (snd (ISTA_run_main_iter example_ext default_self))) =
     [(1 / 10000, PyInt 20, 100000)] \<and>
   priv_lambda default_self = PyFloat (1 / 10) \<and>
   2 * priv_bm default_self * (1 / 10) = 1 / 100000 \<and>
   \<not> list_all (\<lambda>(v, n, s). s = 2 * priv_bm default_self * (1 / 10))
       (denoise_calls (calls (snd (ISTA_run_main_iter example_ext default_self))))"
  by (simp add: example_eval)

text \<open>
  C5, amended. In every ISTA iteration that completes, the gradient-step pass is
  followed directly by one denoiser call with inner-iteration count 20 and third
  argument \<open>1 / lambdaForTv\<close>; there is no momentum extrapolation, the denoised volume is
  the estimate the next iteration starts from, and a run that completes makes \<open>niter\<close>
  such calls. Where the regularization strength is left at its default,
  \<open>lambdaForTv = 2 * bm * lambda\<close>.
\<close>

theorem ISTA_iteration_denoises_directly:
  assumes "as_number (priv_lambda self) = Some l"
    and "lmbda self = l"
    and "fst (ISTA_run_main_iter ext self) = None"
  shows "map snd (denoise_calls (calls (snd (ISTA_run_main_iter ext self)))) =
      map snd (denoise_calls (calls self)) @
        replicate (nat (niter self)) (PyInt 20, 1 / (2 * priv_bm self * l)) \<and>
    (fst (ISTA_iteration ext Q lam i s) = None \<longrightarrow>
       calls (snd (ISTA_iteration ext Q lam i s)) =
         calls (snd (data_minimizing ext s)) @
           [Call_im3ddenoise (res (snd (data_minimizing ext s))) (PyInt 20) (1 / lam),
            Call_error_measurement (case Q of None \<Rightarrow> None | Some q \<Rightarrow> Some (res s)) i] \<and>
       res (snd (ISTA_iteration ext Q lam i s)) =
         im3ddenoise ext (res (snd (data_minimizing ext s))) (PyInt 20) (1 / lam) \<and>
       ISTA_loop ext Q lam (i # is) s =
         ISTA_loop ext Q lam is (snd (ISTA_iteration ext Q lam i s)))"
proof -
  have a: "map snd (denoise_calls (calls (snd (ISTA_run_main_iter ext self)))) =
      map snd (denoise_calls (calls self)) @
        replicate (nat (niter self)) (PyInt 20, 1 / (2 * priv_bm self * l))"
    using assms(2,3)
      ISTA_loop_denoise_calls[of ext "Quameasopts self" "2 * priv_bm self * lmbda self"
        "[0..<nat (niter self)]" self]
    by (simp add: ISTA_run_main_iter_def Let_def)
  have b: "calls (snd (ISTA_iteration ext Q lam i s)) =
         calls (snd (data_minimizing ext s)) @
           [Call_im3ddenoise (res (snd (data_minimizing ext s))) (PyInt 20) (1 / lam),
            Call_error_measurement (case Q of None \<Rightarrow> None | Some q \<Rightarrow> Some (res s)) i] \<and>
       res (snd (ISTA_iteration ext Q lam i s)) =
         im3ddenoise ext (res (snd (data_minimizing ext s))) (PyInt 20) (1 / lam) \<and>
       ISTA_loop ext Q lam (i # is) s =
         ISTA_loop ext Q lam is (snd (ISTA_iteration ext Q lam i s))"
    if h: "fst (ISTA_iteration ext Q lam i s) = None"
  proof -
    obtain e s' where P: "ISTA_iteration ext Q lam i s = (e, s')"
      by (cases "ISTA_iteration ext Q lam i s") blast
    have e: "e = None" using h P by simp
    show ?thesis using ISTA_iteration_success[OF h] P e
      by (simp add: error_measurement_calls_eq error_measurement_res)
  qed
  show ?thesis using a b by blast
qed

theorem ISTA_iteration_denoises_directly_witness:
  "as_number (priv_lambda example_self) = Some (1 / 10) \<and>
   lmbda example_self = 1 / 10 \<and>
   fst (ISTA_run_main_iter example_ext example_self) = None \<and>
   map snd (denoise_calls (calls (snd (ISTA_run_main_iter example_ext example_self)))) =
     [(PyInt 20, 20), (PyInt 20, 20)] \<and>
   fst (ISTA_iteration example_ext None (1 / 20) 0 example_self) = None \<and>
   res (snd (ISTA_iteration example_ext None (1 / 20) 0 example_self)) = 1 / 2"
proof -
  have l: "as_number (priv_lambda example_self) = Some (1 / 10)"
    by (simp add: example_self_def)
  have l': "lmbda example_self = 1 / 10" by (simp add: example_self_def)
  have r: "fst (ISTA_run_main_iter example_ext example_self) = None"
    by (simp add: example_eval numeral_2_eq_2)
  have i: "fst (ISTA_iteration example_ext None (1 / 20) 0 example_self) = None"
    by (simp add: example_eval)
  have v: "priv_bm example_self = 1 / 4" "niter example_self = 2" "calls example_self = []"
    "res (snd (data_minimizing example_ext example_self)) = 1 / 2"
    "im3ddenoise example_ext = (\<lambda>v n s. v)"
    by (simp_all add: example_eval)
  show ?thesis
    using l l' r i ISTA_iteration_denoises_directly[OF l l' r, of None "1 / 20" 0 example_self "[]"]
    by (simp add: v numeral_2_eq_2)
qed

subsection \<open>The metric-recording calls\<close>

lemma FISTA_iteration_em_calls:
  assumes "fst (FISTA_iteration ext Q lam i (t, x, self)) = None"
  shows "error_measurement_calls
      (calls (snd (snd (snd (FISTA_iteration ext Q lam i (t, x, self)))))) =
    error_measurement_calls (calls self) @
      [(case Q of None \<Rightarrow> None | Some q \<Rightarrow> Some (res self), i)]"
  using FISTA_iteration_success[OF assms]
  by (simp add: error_measurement_calls_eq error_measurement_calls_append
      data_minimizing_frame(3))

lemma ISTA_iteration_em_calls:
  assumes "fst (ISTA_iteration ext Q lam i self) = None"
  shows "error_measurement_calls (calls (snd (ISTA_iteration ext Q lam i self))) =
    error_measurement_calls (calls self) @
      [(case Q of None \<Rightarrow> None | Some q \<Rightarrow> Some (res self), i)]"
  using ISTA_iteration_success[OF assms]
  by (simp add: error_measurement_calls_eq error_measurement_calls_append
      data_minimizing_frame(3))

lemma FISTA_loop_em_calls_prefix:
  "fst (FISTA_loop ext Q lam is loc) = None \<Longrightarrow>
   \<exists>rest. error_measurement_calls (calls (snd (snd (snd (FISTA_loop ext Q lam is loc))))) =
     error_measurement_calls (calls (snd (snd loc))) @ rest"
proof (induction "is" arbitrary: loc)
  case Nil
  show ?case by simp
next
  case (Cons i "is")
  obtain t x self where loc: "loc = (t, x, self)" by (cases loc) blast
  note c = FISTA_loop_Cons_success[OF Cons.prems]
  let ?loc' = "snd (FISTA_iteration ext Q lam i loc)"
  have it: "fst (FISTA_iteration ext Q lam i (t, x, self)) = None" using c loc by simp
  have r: "fst (FISTA_loop ext Q lam is ?loc') = None" using c Cons.prems by simp
  obtain rest where "error_measurement_calls
      (calls (snd (snd (snd (FISTA_loop ext Q lam is ?loc'))))) =
      error_measurement_calls (calls (snd (snd ?loc'))) @ rest"
    using Cons.IH[OF r] by blast
  thus ?case using c FISTA_iteration_em_calls[OF it] loc by simp
qed

lemma ISTA_loop_em_calls_prefix:
  "fst (ISTA_loop ext Q lam is self) = None \<Longrightarrow>
   \<exists>rest. error_measurement_calls (calls (snd (ISTA_loop ext Q lam is self))) =
     error_measurement_calls (calls self) @ rest"
proof (induction "is" arbitrary: self)
  case Nil
  show ?case by simp
next
  case (Cons i "is")
  note c = ISTA_loop_Cons_success[OF Cons.prems]
  let ?s = "snd (ISTA_iteration ext Q lam i self)"
  have it: "fst (ISTA_iteration ext Q lam i self) = None" using c by simp
  have r: "fst (ISTA_loop ext Q lam is ?s) = None" using c Cons.prems by simp
  obtain rest where "error_measurement_calls (calls (snd (ISTA_loop ext Q lam is ?s))) =
      error_measurement_calls (calls ?s) @ rest"
    using Cons.IH[OF r] by blast
  thus ?case using c ISTA_iteration_em_calls[OF it] by simp
qed

lemma FISTA_run_first_em_call:
  assumes "fst (FISTA_run_main_iter ext self) = None" and "0 < niter self"
  shows "error_measurement_calls (calls (snd (FISTA_run_main_iter ext self))) !
      length (error_measurement_calls (calls self)) =
    (case Quameasopts self of None \<Rightarrow> None | Some q \<Rightarrow> Some (res self), 0)"
proof (cases "float_mul (2 * priv_bm self) (priv_lambda self)")
  case (Inl e)
  thus ?thesis using assms(1) by (simp add: FISTA_run_main_iter_def)
next
  case (Inr lam)
  let ?Q = "Quameasopts self"
  let ?loc = "(priv_t self, res self, self)"
  have u: "[0..<nat (niter self)] = 0 # [Suc 0..<nat (niter self)]"
    using assms(2) by (simp add: upt_conv_Cons)
  let ?L = "FISTA_loop ext ?Q lam (0 # [Suc 0..<nat (niter self)]) ?loc"
  obtain e t' x' s' where P: "?L = (e, t', x', s')" by (cases ?L) blast
  have run: "FISTA_run_main_iter ext self = (e, s')"
    using Inr P u by (simp add: FISTA_run_main_iter_def)
  have e: "fst ?L = None" using assms(1) run P by simp
  note c = FISTA_loop_Cons_success[OF e]
  let ?loc' = "snd (FISTA_iteration ext ?Q lam 0 ?loc)"
  have it: "fst (FISTA_iteration ext ?Q lam 0 ?loc) = None" using c by simp
  have r: "fst (FISTA_loop ext ?Q lam [Suc 0..<nat (niter self)] ?loc') = None"
    using c e by simp
  obtain rest where "error_measurement_calls
      (calls (snd (snd (snd (FISTA_loop ext ?Q lam [Suc 0..<nat (niter self)] ?loc'))))) =
      error_measurement_calls (calls (snd (snd ?loc'))) @ rest"
    using FISTA_loop_em_calls_prefix[OF r] by blast
  hence "error_measurement_calls (calls s') =
      error_measurement_calls (calls self) @
        (case ?Q of None \<Rightarrow> None | Some q \<Rightarrow> Some (res self), 0) # rest"
    using c P FISTA_iteration_em_calls[OF it] by simp
  thus ?thesis using run by (simp add: nth_append)
qed

lemma ISTA_run_first_em_call:
  assumes "fst (ISTA_run_main_iter ext self) = None" and "0 < niter self"
  shows "error_measurement_calls (calls (snd (ISTA_run_main_iter ext self))) !
      length (error_measurement_calls (calls self)) =
    (case Quameasopts self of None \<Rightarrow> None | Some q \<Rightarrow> Some (res self), 0)"
proof -
  let ?Q = "Quameasopts self"
  let ?lam = "2 * priv_bm self * lmbda self"
  have u: "[0..<nat (niter self)] = 0 # [Suc 0..<nat (niter self)]"
    using assms(2) by (simp add: upt_conv_Cons)
  have run: "ISTA_run_main_iter ext self =
      ISTA_loop ext ?Q ?lam (0 # [Suc 0..<nat (niter self)]) self"
    using u by (simp add: ISTA_run_main_iter_def Let_def)
  have e: "fst (ISTA_loop ext ?Q ?lam (0 # [Suc 0..<nat (niter self)]) self) = None"
    using assms(1) run by simp
  note c = ISTA_loop_Cons_success[OF e]
  let ?s = "snd (ISTA_iteration ext ?Q ?lam 0 self)"
  have it: "fst (ISTA_iteration ext ?Q ?lam 0 self) = None" using c by simp
  have r: "fst (ISTA_loop ext ?Q ?lam [Suc 0..<nat (niter self)] ?s) = None"
    using c e by simp
  obtain rest where "error_measurement_calls
      (calls (snd (ISTA_loop ext ?Q ?lam [Suc 0..<nat (niter self)] ?s))) =
      error_measurement_calls (calls ?s) @ rest"
    using ISTA_loop_em_calls_prefix[OF r] by blast
  hence "error_measurement_calls (calls (snd (ISTA_run_main_iter ext self))) =
      error_measurement_calls (calls self) @
        (case ?Q of None \<Rightarrow> None | Some q \<Rightarrow> Some (res self), 0) # rest"
    using c run ISTA_iteration_em_calls[OF it] by simp
  thus ?thesis by (simp add: nth_append)
qed

text \<open>
  C6, as the claim states it, fails: with quality measurement enabled, the first
  iteration (index 0) of \<^verbatim>\<open>FISTA\<close> and of \<^verbatim>\<open>ISTA\<close> passes the initial estimate, not
  \<^verbatim>\<open>None\<close>, to \<^verbatim>\<open>error_measurement\<close>.
\<close>

theorem first_iteration_res_prev_counterexample:
  "Quameasopts example_self = Some [''RMSE''] \<and>
   res example_self = 0 \<and>
   error_measurement_calls (calls (snd (run_main_iter Cls_FISTA example_ext example_self))) =
     [(Some 0, 0), (Some (1 / 2), 1)] \<and>
   error_measurement_calls (calls (snd (run_main_iter Cls_ISTA example_ext example_self))) =
     [(Some 0, 0), (Some (1 / 2), 1)] \<and>
   fst (hd (error_measurement_calls
     (calls (snd (run_main_iter Cls_FISTA example_ext example_self))))) \<noteq> None \<and>
   fst (hd (error_measurement_calls
     (calls (snd (run_main_iter Cls_ISTA example_ext example_self))))) \<noteq> None"
  by (simp add: example_eval numeral_2_eq_2)

text \<open>
  C6, amended. In every iteration of \<^verbatim>\<open>ISTA\<close> and of \<^verbatim>\<open>FISTA\<close> that completes, the first
  included, the metric-recording call receives the iteration index and, when quality
  measurement is enabled (\<^verbatim>\<open>Quameasopts\<close> is not \<^verbatim>\<open>None\<close>), a copy of the estimate as it
  stood when the iteration began; it receives \<^verbatim>\<open>None\<close> when quality measurement is
  disabled. The last conjunct is the first iteration of a run.
\<close>

theorem res_prev_every_iteration:
  "(fst (FISTA_iteration ext Q lam i (t, x, self)) = None \<longrightarrow>
      error_measurement_calls (calls (snd (snd (snd (FISTA_iteration ext Q lam i (t, x, self)))))) =
        error_measurement_calls (calls self) @
          [(case Q of None \<Rightarrow> None | Some q \<Rightarrow> Some (res self), i)]) \<and>
   (fst (ISTA_iteration ext Q lam i self) = None \<longrightarrow>
      error_measurement_calls (calls (snd (ISTA_iteration ext Q lam i self))) =
        error_measurement_calls (calls self) @
          [(case Q of None \<Rightarrow> None | Some q \<Rightarrow> Some (res self), i)]) \<and>
   (fst (run_main_iter c ext self) = None \<and> 0 < niter self \<longrightarrow>
      error_measurement_calls (calls (snd (run_main_iter c ext self))) !
          length (error_measurement_calls (calls self)) =
        (case Quameasopts self of None \<Rightarrow> None | Some q \<Rightarrow> Some (res self), 0))"
  using FISTA_iteration_em_calls[of ext Q lam i t x self]
    ISTA_iteration_em_calls[of ext Q lam i self]
    FISTA_run_first_em_call[of ext self] ISTA_run_first_em_call[of ext self]
  by (cases c) (simp_all add: run_main_iter_eq)

theorem res_prev_every_iteration_witness:
  "fst (FISTA_iteration example_ext (Some [''RMSE'']) (1 / 20) 0 (1, 0, example_self)) = None \<and>
   error_measurement_calls (calls (snd (snd (snd
     (FISTA_iteration example_ext (Some [''RMSE'']) (1 / 20) 0 (1, 0, example_self)))))) =
     [(Some 0, 0)] \<and>
   fst (ISTA_iteration example_ext None (1 / 20) 0 example_self) = None \<and>
   error_measurement_calls (calls (snd
     (ISTA_iteration example_ext None (1 / 20) 0 example_self))) = [(None, 0)] \<and>
   fst (run_main_iter Cls_ISTA example_ext example_self) = None \<and>
   0 < niter example_self \<and>
   error_measurement_calls (calls (snd (run_main_iter Cls_ISTA example_ext example_self))) ! 0 =
     (Some 0, 0)"
proof -
  have f: "fst (FISTA_iteration example_ext (Some [''RMSE'']) (1 / 20) 0 (1, 0, example_self)) = None"
    by (simp add: example_eval)
  have i: "fst (ISTA_iteration example_ext None (1 / 20) 0 example_self) = None"
    by (simp add: example_eval)
  have r: "fst (run_main_iter Cls_ISTA example_ext example_self) = None"
    by (simp add: example_eval numeral_2_eq_2)
  have v: "0 < niter example_self" "calls example_self = []" "res example_self = 0"
    "Quameasopts example_self = Some [''RMSE'']"
    by (simp_all add: example_self_def)
  show ?thesis
    using f i r v
      res_prev_every_iteration[of example_ext "Some [''RMSE'']" "1 / 20" 0 1 0 example_self
        Cls_ISTA]
      res_prev_every_iteration[of example_ext None "1 / 20" 0 1 0 example_self Cls_ISTA]
    by simp
qed

subsection \<open>A remark on the strength \<^verbatim>\<open>ISTA\<close> uses\<close>

text \<open>
  \<^verbatim>\<open>ISTA.run_main_iter\<close> reads \<^verbatim>\<open>self.lmbda\<close>, which the constructor fixes at 0.1, where
  \<^verbatim>\<open>FISTA.run_main_iter\<close> reads \<^verbatim>\<open>self.__lambda__\<close>, the \<^verbatim>\<open>lambda\<close> keyword of the docstring
  the two classes share: constructed with \<^verbatim>\<open>lambda = 0.5\<close>, \<^verbatim>\<open>ISTA\<close> calls the denoiser
  with the same \<open>100000\<close> as with the default, \<^verbatim>\<open>FISTA\<close> with \<open>20000\<close>.
\<close>

lemma ISTA_reads_lmbda:
  "instantiate Cls_ISTA example_base_init example_proj () example_angles 1
     [''lambda'' \<mapsto> PyFloat (1 / 2)] = Inr (default_self\<lparr>priv_lambda := PyFloat (1 / 2)\<rparr>) \<and>
   denoise_calls (calls (snd (run_main_iter Cls_ISTA example_ext
     (default_self\<lparr>priv_lambda := PyFloat (1 / 2)\<rparr>)))) = [(1 / 10000, PyInt 20, 100000)] \<and>
   denoise_calls (calls (snd (run_main_iter Cls_FISTA example_ext
     (default_self\<lparr>priv_lambda := PyFloat (1 / 2)\<rparr>)))) = [(1 / 10000, PyInt 20, 20000)]"
  by (simp add: instantiate_eq FISTA_init_eq example_base_init_def
      IterativeReconAlg.extend_def example_eval)

end
